theory Spec2Isabelle
  imports Complex_Main
begin

section \<open>Python values and exceptions\<close>

text \<open>
  The pipeline of \<^verbatim>\<open>bokpipe/bokproc.py\<close> passes its options around as keyword
  dictionaries whose values are dynamically typed.  The values that reach the functions
  modelled here are \<^verbatim>\<open>None\<close>, booleans, integers, floats, strings, tuples, lists and
  one-dimensional arrays of floats.
\<close>

datatype pyobj =
    PyNone
  | PyBool bool
  | PyInt int
  | PyFloat real
  | PyStr string
  | PyTuple "pyobj list"
  | PyList "pyobj list"
  | PyArray "real list"

text \<open>
  Every \<^verbatim>\<open>raise ValueError\<close> of the source raises the built-in exception
  without a message.  The model keeps the exception class and records, as an argument,
  the place that raised it, so that two \<^verbatim>\<open>ValueError\<close>s of different origin can be
  told apart in a theorem.
\<close>

datatype origin =
    UnknownRegion        \<comment> \<open>the last branch of \<^verbatim>\<open>stats_region\<close>\<close>
  | UnsupportedReject    \<comment> \<open>the rejection dispatch of \<^verbatim>\<open>stack_image_cube\<close>\<close>
  | UnsupportedMethod    \<comment> \<open>the combine dispatch of \<^verbatim>\<open>stack_image_cube\<close>\<close>
  | Unpack               \<comment> \<open>tuple unpacking with the wrong number of values\<close>
  | ShapeMismatch        \<comment> \<open>\<^verbatim>\<open>numpy\<close> stacking of arrays of different shape\<close>
  | SliceArgument        \<comment> \<open>a slice that the FITS reader refuses\<close>
  | IntLiteral           \<comment> \<open>\<^verbatim>\<open>int\<close> of a string that is not a decimal literal\<close>
  | AmbiguousTruth       \<comment> \<open>the truth value of an array with more than one element\<close>

datatype error =
    ValueError origin
  | KeyError string
  | IndexError
  | TypeError
  | AttributeError
  | IOError string
  | MaskError
  | UnboundLocalError
  | NotFinite

section \<open>Named statistics regions\<close>

fun is_tuple :: "pyobj \<Rightarrow> bool" where
  "is_tuple (PyTuple _) = True"
| "is_tuple _ = False"

definition stats_region :: "pyobj \<Rightarrow> error + pyobj" where
  "stats_region statreg =
     (if is_tuple statreg then Inr statreg
      else if statreg = PyStr ''amp_central_quadrant'' then
        Inr (PyTuple [PyInt 512, PyInt (- 512), PyInt 512, PyInt (- 512)])
      else if statreg = PyStr ''amp_corner_ccdcenter_small'' then
        Inr (PyTuple [PyInt (- 512), PyInt (- 50), PyInt (- 512), PyInt (- 50)])
      else if statreg = PyStr ''amp_corner_ccdcenter'' then
        Inr (PyTuple [PyInt (- 1024), PyInt (- 1), PyInt (- 1024), PyInt (- 1)])
      else if statreg = PyStr ''centeramp_corner_fovcenter'' then
        Inr (PyTuple [PyInt 50, PyInt 1024, PyInt 50, PyInt 1024])
      else if statreg = PyStr ''ccd_central_quadrant'' then
        Inr (PyTuple [PyInt 1024, PyInt (- 1024), PyInt 1024, PyInt (- 1024)])
      else Inl (ValueError UnknownRegion))"

text \<open>The tags that \<^const>\<open>stats_region\<close> recognises.\<close>

definition region_tags :: "string list" where
  "region_tags =
     [''amp_central_quadrant'', ''amp_corner_ccdcenter_small'', ''amp_corner_ccdcenter'',
      ''centeramp_corner_fovcenter'', ''ccd_central_quadrant'']"

text \<open>
  The callers unpack the result with \<^verbatim>\<open>x1,x2,y1,y2 = stats_region(...)\<close>, which
  raises \<^verbatim>\<open>ValueError\<close> unless the tuple has exactly four components.
\<close>

fun four :: "pyobj list \<Rightarrow> error + (pyobj \<times> pyobj \<times> pyobj \<times> pyobj)" where
  "four [a, b, c, d] = Inr (a, b, c, d)"
| "four _ = Inl (ValueError Unpack)"

fun unpack4 :: "pyobj \<Rightarrow> error + (pyobj \<times> pyobj \<times> pyobj \<times> pyobj)" where
  "unpack4 (PyTuple xs) = four xs"
| "unpack4 (PyList xs) = four xs"
| "unpack4 (PyArray xs) = four (map PyFloat xs)"
| "unpack4 (PyStr s) = four (map (\<lambda>c. PyStr [c]) s)"
| "unpack4 _ = Inl TypeError"

section \<open>Sequencing of fallible steps\<close>

text \<open>
  A function of the source that can raise returns \<open>error + 'a\<close> here: \<open>Inl e\<close> is the
  exception and \<open>Inr x\<close> the value returned.  \<open>seq\<close> runs the next step only when the
  previous one returned; \<open>seq_list\<close> evaluates a list comprehension from left to right
  and stops at the first exception.
\<close>

definition seq :: "error + 'a \<Rightarrow> ('a \<Rightarrow> error + 'b) \<Rightarrow> error + 'b" where
  "seq m f = (case m of Inl e \<Rightarrow> Inl e | Inr x \<Rightarrow> f x)"

fun seq_list :: "('a \<Rightarrow> error + 'b) \<Rightarrow> 'a list \<Rightarrow> error + 'b list" where
  "seq_list f [] = Inr []"
| "seq_list f (x # xs) =
     (case f x of Inl e \<Rightarrow> Inl e
      | Inr y \<Rightarrow> (case seq_list f xs of Inl e \<Rightarrow> Inl e | Inr ys \<Rightarrow> Inr (y # ys)))"

type_synonym kwargs = "string \<rightharpoonup> pyobj"

definition kw_get :: "kwargs \<Rightarrow> string \<Rightarrow> pyobj \<Rightarrow> pyobj" where
  "kw_get kw k d = (case kw k of None \<Rightarrow> d | Some v \<Rightarrow> v)"

definition kw_setdefault :: "kwargs \<Rightarrow> string \<Rightarrow> pyobj \<Rightarrow> kwargs" where
  "kw_setdefault kw k d = (case kw k of None \<Rightarrow> kw(k \<mapsto> d) | Some v \<Rightarrow> kw)"

fun truthy :: "pyobj \<Rightarrow> error + bool" where
  "truthy PyNone = Inr False"
| "truthy (PyBool b) = Inr b"
| "truthy (PyInt i) = Inr (i \<noteq> 0)"
| "truthy (PyFloat x) = Inr (x \<noteq> 0)"
| "truthy (PyStr s) = Inr (s \<noteq> [])"
| "truthy (PyTuple t) = Inr (t \<noteq> [])"
| "truthy (PyList t) = Inr (t \<noteq> [])"
| "truthy (PyArray a) =
     (case a of [] \<Rightarrow> Inr False | [x] \<Rightarrow> Inr (x \<noteq> 0)
      | _ \<Rightarrow> Inl (ValueError AmbiguousTruth))"

section \<open>Arrays\<close>

text \<open>
  A two-dimensional array is the list of its rows and a three-dimensional array (a
  cube, rows by columns by frames) the list of its rows of sample lists:
  \<open>cube ! r ! c ! k\<close> is the sample of frame \<open>k\<close> at row \<open>r\<close> and column \<open>c\<close>.  Pixel
  values are real numbers: the rounding of the 32 and 64 bit floats of the source is
  not modelled.  An element of a masked array is a pair of its value and its mask flag
  (\<open>True\<close> means masked).
\<close>

type_synonym 'a image = "'a list list"
type_synonym 'a cube = "'a list list list"
type_synonym msample = "real \<times> bool"

definition shape2 :: "'a image \<Rightarrow> nat \<times> nat" where
  "shape2 im = (length im, (case im of [] \<Rightarrow> 0 | r # _ \<Rightarrow> length r))"

definition rect :: "nat \<Rightarrow> nat \<Rightarrow> 'a image \<Rightarrow> bool" where
  "rect h w im = (length im = h \<and> list_all (\<lambda>r. length r = w) im)"

text \<open>
  Python's slice \<^verbatim>\<open>xs[i:j]\<close> on a sequence of length \<open>n\<close>: a negative bound counts
  from the end, both bounds are clipped to \<open>0..n\<close>, and \<^verbatim>\<open>None\<close> leaves a bound open.
\<close>

definition slice_bound :: "nat \<Rightarrow> int \<Rightarrow> nat" where
  "slice_bound n i = (if i < 0 then nat (max (i + int n) 0) else min (nat i) n)"

definition py_slice :: "'a list \<Rightarrow> int option \<Rightarrow> int option \<Rightarrow> 'a list" where
  "py_slice xs i j =
     (let n = length xs;
          a = (case i of None \<Rightarrow> 0 | Some i' \<Rightarrow> slice_bound n i');
          b = (case j of None \<Rightarrow> n | Some j' \<Rightarrow> slice_bound n j')
      in take (b - a) (drop a xs))"

text \<open>\<^verbatim>\<open>im[y1:y2,x1:x2]\<close>\<close>

definition slice2 :: "'a image \<Rightarrow> int option \<Rightarrow> int option \<Rightarrow> int option \<Rightarrow> int option \<Rightarrow> 'a image" where
  "slice2 im y1 y2 x1 x2 = map (\<lambda>r. py_slice r x1 x2) (py_slice im y1 y2)"

text \<open>
  \<^verbatim>\<open>numpy.dstack\<close> of two-dimensional arrays: all must have one shape, and there
  must be at least one.
\<close>

definition cube_of :: "nat \<Rightarrow> nat \<Rightarrow> 'a image list \<Rightarrow> 'a cube" where
  "cube_of h w ims = map (\<lambda>r. map (\<lambda>c. map (\<lambda>im. im ! r ! c) ims) [0 ..< w]) [0 ..< h]"

definition dstack :: "'a image list \<Rightarrow> error + 'a cube" where
  "dstack ims =
     (case ims of
        [] \<Rightarrow> Inl (ValueError ShapeMismatch)
      | im0 # _ \<Rightarrow>
          if list_all (\<lambda>im. shape2 im = shape2 im0) ims then
            Inr (cube_of (fst (shape2 im0)) (snd (shape2 im0)) ims)
          else Inl (ValueError ShapeMismatch))"

definition shape3 :: "'a cube \<Rightarrow> nat \<times> nat \<times> nat" where
  "shape3 c =
     (length c,
      (case c of [] \<Rightarrow> 0 | r # _ \<Rightarrow> length r),
      (case c of [] \<Rightarrow> 0 | r # _ \<Rightarrow> (case r of [] \<Rightarrow> 0 | p # _ \<Rightarrow> length p)))"

definition size3 :: "'a cube \<Rightarrow> nat" where
  "size3 c = (case shape3 c of (h, w, n) \<Rightarrow> h * w * n)"

text \<open>Cutting a flat list into pieces of length \<open>n\<close>, as \<^verbatim>\<open>reshape\<close> does.\<close>

fun chunks :: "nat \<Rightarrow> nat \<Rightarrow> 'a list \<Rightarrow> 'a list list" where
  "chunks 0 n xs = []"
| "chunks (Suc k) n xs = take n xs # chunks k n (drop n xs)"

definition reshape3 :: "nat \<times> nat \<times> nat \<Rightarrow> 'a list \<Rightarrow> 'a cube" where
  "reshape3 s xs = (case s of (h, w, n) \<Rightarrow> map (chunks w n) (chunks h (w * n) xs))"

text \<open>
  \<^verbatim>\<open>numpy.ma.masked_array(cube, mask)\<close>.  Without a mask nothing is masked.  An
  integer mask is read as a boolean one (nonzero means masked).  A mask of another shape
  is broadcast when it has one element, reshaped when it has as many elements as the
  data, and refused otherwise.
\<close>

definition masked_array :: "real cube \<Rightarrow> real cube option \<Rightarrow> error + msample cube" where
  "masked_array c mk =
     (case mk of
        None \<Rightarrow> Inr (map (map (map (\<lambda>v. (v, False)))) c)
      | Some m \<Rightarrow>
          (let b = map (map (map (\<lambda>x. x \<noteq> 0))) m;
               b' = (if shape3 m = shape3 c then Inr b
                     else if size3 m = 1 then
                       Inr (map (map (map (\<lambda>v. hd (hd (hd b))))) c)
                     else if size3 m = size3 c then
                       Inr (reshape3 (shape3 c) (concat (concat b)))
                     else Inl MaskError)
           in seq b' (\<lambda>b'. Inr (map2 (map2 zip) c b'))))"

section \<open>Stacking an image cube\<close>

subsection \<open>Reductions along the frame axis of a masked cube\<close>

text \<open>
  \<^verbatim>\<open>MaskedArray.argmax\<close> fills the masked samples with the least value of the data
  type and \<^verbatim>\<open>argmin\<close> with the greatest one, then returns the first position of the
  extremum.  A masked sample is \<open>None\<close> below: it compares below every value for
  \<open>argmax\<close> and above every value for \<open>argmin\<close>.  An empty sample list has no extremum
  (\<^verbatim>\<open>ValueError\<close> in \<^verbatim>\<open>numpy\<close>).
\<close>

definition fill_key :: "msample \<Rightarrow> real option" where
  "fill_key s = (if snd s then None else Some (fst s))"

fun gt_max :: "real option \<Rightarrow> real option \<Rightarrow> bool" where
  "gt_max (Some a) (Some b) = (a > b)"
| "gt_max (Some a) None = True"
| "gt_max None _ = False"

fun lt_min :: "real option \<Rightarrow> real option \<Rightarrow> bool" where
  "lt_min (Some a) (Some b) = (a < b)"
| "lt_min (Some a) None = True"
| "lt_min None _ = False"

text \<open>
  \<open>first_best better best i k xs\<close> scans \<open>xs\<close>, whose first element has position \<open>k\<close>,
  and keeps the position \<open>i\<close> of the best key \<open>best\<close> seen so far; only a strictly better
  key replaces it.
\<close>

fun first_best ::
  "('k \<Rightarrow> 'k \<Rightarrow> bool) \<Rightarrow> 'k \<Rightarrow> nat \<Rightarrow> nat \<Rightarrow> 'k list \<Rightarrow> nat" where
  "first_best better best i k [] = i"
| "first_best better best i k (x # xs) =
     (if better x best then first_best better x k (Suc k) xs
      else first_best better best i (Suc k) xs)"

definition ma_argmax :: "msample list \<Rightarrow> error + nat" where
  "ma_argmax ss =
     (case map fill_key ss of
        [] \<Rightarrow> Inl (ValueError ShapeMismatch)
      | x # xs \<Rightarrow> Inr (first_best gt_max x 0 1 xs))"

definition ma_argmin :: "msample list \<Rightarrow> error + nat" where
  "ma_argmin ss =
     (case map fill_key ss of
        [] \<Rightarrow> Inl (ValueError ShapeMismatch)
      | x # xs \<Rightarrow> Inr (first_best lt_min x 0 1 xs))"

text \<open>The position array \<^verbatim>\<open>imcube.argmax(axis=-1)\<close>, one position for each pixel.\<close>

definition cube_arg :: "(msample list \<Rightarrow> error + nat) \<Rightarrow> msample cube \<Rightarrow> error + nat image" where
  "cube_arg arg c = seq_list (\<lambda>row. seq_list arg row) c"

text \<open>
  \<^verbatim>\<open>imcube[:,:,idx] = numpy.ma.masked\<close> with an array \<^verbatim>\<open>idx\<close> of positions: the
  two full slices select every row and every column, and the index array selects, along
  the frame axis, every position that occurs in it.  The assignment therefore sets the
  mask flag of frame \<open>k\<close> at all pixels as soon as \<open>k\<close> occurs anywhere in \<^verbatim>\<open>idx\<close>.
\<close>

definition mask_frames :: "nat image \<Rightarrow> msample cube \<Rightarrow> msample cube" where
  "mask_frames idx c =
     map (map (\<lambda>ss. map (\<lambda>(k, s). (fst s, snd s \<or> k \<in> set (concat idx)))
                         (zip [0 ..< length ss] ss))) c"

definition unmasked :: "msample list \<Rightarrow> real list" where
  "unmasked ss = map fst (filter (\<lambda>s. \<not> snd s) ss)"

text \<open>
  The reductions return \<open>None\<close> for a pixel of the result that is masked: a pixel none
  of whose samples is left, or a weighted mean whose weights sum to zero.
\<close>

definition ma_mean :: "msample list \<Rightarrow> real option" where
  "ma_mean ss =
     (let vs = unmasked ss in if vs = [] then None else Some (sum_list vs / real (length vs)))"

definition ma_average :: "real list \<Rightarrow> msample list \<Rightarrow> real option" where
  "ma_average ws ss =
     (let ps = filter (\<lambda>(w, s). \<not> snd s) (zip ws ss);
          scl = sum_list (map fst ps)
      in if ps = [] \<or> scl = 0 then None
         else Some (sum_list (map (\<lambda>(w, s). w * fst s) ps) / scl))"

definition ma_median :: "msample list \<Rightarrow> real option" where
  "ma_median ss =
     (let vs = sort (unmasked ss); n = length vs
      in if n = 0 then None
         else if odd n then Some (vs ! (n div 2))
         else Some ((vs ! (n div 2 - 1) + vs ! (n div 2)) / 2))"

definition ma_var :: "msample list \<Rightarrow> real option" where
  "ma_var ss =
     (case ma_mean ss of
        None \<Rightarrow> None
      | Some m \<Rightarrow>
          Some (sum_list (map (\<lambda>v. (v - m) * (v - m)) (unmasked ss))
                  / real (length (unmasked ss))))"

subsection \<open>The steps of \<^verbatim>\<open>stack_image_cube\<close>\<close>

text \<open>
  Scaling.  \<^verbatim>\<open>imCube * scales\<close> multiplies frame \<open>k\<close> by \<open>scales ! k\<close>, with the
  broadcasting of \<^verbatim>\<open>numpy\<close> when one of the two has length one.  A string beginning
  with \<^verbatim>\<open>normalize\<close> asks for scales measured in the statistics region; that
  measurement is built from \<^verbatim>\<open>astropy.stats.sigma_clip\<close> and
  \<^verbatim>\<open>scipy.stats.mstats.mode\<close> and is the parameter \<open>normfn\<close> of the model.  Any
  other string is called as a function (\<^verbatim>\<open>TypeError\<close>), and a value that is neither an
  array nor a string has no method \<^verbatim>\<open>startswith\<close> (\<^verbatim>\<open>AttributeError\<close>).
\<close>

definition mul_scales :: "real list \<Rightarrow> msample cube \<Rightarrow> error + msample cube" where
  "mul_scales scales c =
     seq_list (seq_list (\<lambda>ss.
        if length scales = length ss then Inr (map2 (\<lambda>a s. (fst s * a, snd s)) scales ss)
        else if length scales = 1 then Inr (map (\<lambda>s. (fst s * hd scales, snd s)) ss)
        else if length ss = 1 then Inr (map (\<lambda>a. (fst (hd ss) * a, snd (hd ss))) scales)
        else Inl (ValueError ShapeMismatch))) c"

definition starts_with :: "string \<Rightarrow> string \<Rightarrow> bool" where
  "starts_with s p = (take (length p) s = p)"

type_synonym region = "pyobj \<times> pyobj \<times> pyobj \<times> pyobj"
type_synonym normalizer = "string \<Rightarrow> region \<Rightarrow> msample cube \<Rightarrow> error + real list"

definition scale_cube ::
  "normalizer \<Rightarrow> pyobj \<Rightarrow> region \<Rightarrow> msample cube \<Rightarrow> error + (msample cube \<times> real list option)" where
  "scale_cube normfn scale reg imCube =
     (case scale of
        PyNone \<Rightarrow> Inr (imCube, None)
      | PyArray scales \<Rightarrow>
          seq (mul_scales scales imCube) (\<lambda>c. Inr (c, Some scales))
      | PyStr s \<Rightarrow>
          if starts_with s ''normalize'' then
            seq (normfn s reg imCube) (\<lambda>scales.
            seq (mul_scales scales imCube) (\<lambda>c. Inr (c, Some scales)))
          else Inl TypeError
      | _ \<Rightarrow> Inl AttributeError)"

text \<open>
  Rejection.  The clipping of \<^verbatim>\<open>astropy.stats.sigma_clip\<close> along the frame axis is
  the parameter \<open>sigma_clip\<close> of the model; it receives the values of \<^verbatim>\<open>iters\<close> and
  \<^verbatim>\<open>sig\<close>.
\<close>

type_synonym clipper = "pyobj \<times> pyobj \<Rightarrow> msample cube \<Rightarrow> error + msample cube"

definition reject_minmax :: "msample cube \<Rightarrow> error + msample cube" where
  "reject_minmax imcube =
     seq (cube_arg ma_argmax imcube) (\<lambda>imax.
       (let c1 = mask_frames imax imcube in
        seq (cube_arg ma_argmin c1) (\<lambda>imin. Inr (mask_frames imin c1))))"

definition reject_cube :: "clipper \<Rightarrow> pyobj \<Rightarrow> pyobj \<times> pyobj \<Rightarrow> msample cube \<Rightarrow> error + msample cube" where
  "reject_cube sigma_clip reject clipargs imcube =
     (if reject = PyStr ''sigma_clip'' then sigma_clip clipargs imcube
      else if reject = PyStr ''minmax'' then reject_minmax imcube
      else if reject \<noteq> PyNone then Inl (ValueError UnsupportedReject)
      else Inr imcube)"

text \<open>
  Combination.  \<^verbatim>\<open>numpy.ma.average\<close> without weights is the mean of the samples
  that are not masked; one-dimensional weights must have one weight for each frame.
  The weights may be an array or a list or tuple of numbers, which
  \<^verbatim>\<open>numpy\<close> converts to an array.
\<close>

fun num_of :: "pyobj \<Rightarrow> real option" where
  "num_of (PyInt i) = Some (real_of_int i)"
| "num_of (PyFloat x) = Some x"
| "num_of (PyBool b) = Some (if b then 1 else 0)"
| "num_of _ = None"

definition nums_of :: "pyobj list \<Rightarrow> error + real list option" where
  "nums_of xs =
     (if list_all (\<lambda>x. num_of x \<noteq> None) xs then Inr (Some (map (\<lambda>x. the (num_of x)) xs))
      else Inl TypeError)"

fun weights_of :: "pyobj \<Rightarrow> error + real list option" where
  "weights_of PyNone = Inr None"
| "weights_of (PyArray ws) = Inr (Some ws)"
| "weights_of (PyList xs) = nums_of xs"
| "weights_of (PyTuple xs) = nums_of xs"
| "weights_of _ = Inl TypeError"

definition average_cube :: "pyobj \<Rightarrow> msample cube \<Rightarrow> error + real option image" where
  "average_cube weights imcube =
     seq (weights_of weights) (\<lambda>w.
       (case w of
          None \<Rightarrow> Inr (map (map ma_mean) imcube)
        | Some ws \<Rightarrow>
            seq_list (seq_list (\<lambda>ss.
              if length ws = length ss then Inr (ma_average ws ss)
              else Inl (ValueError ShapeMismatch))) imcube))"

definition combine_cube :: "pyobj \<Rightarrow> pyobj \<Rightarrow> msample cube \<Rightarrow> error + real option image" where
  "combine_cube method weights imcube =
     (if method = PyStr ''mean'' then average_cube weights imcube
      else if method = PyStr ''median'' then Inr (map (map ma_median) imcube)
      else Inl (ValueError UnsupportedMethod))"

text \<open>
  The stack and the variance image are cast with \<^verbatim>\<open>astype(np.float32)\<close>.  The
  rounding of a value to the nearest 32 bit float is the parameter \<open>float32\<close> of the
  model; a masked pixel stays masked.
\<close>

type_synonym rounding = "real \<Rightarrow> real"

definition astype :: "rounding \<Rightarrow> real option image \<Rightarrow> real option image" where
  "astype float32 stack = map (map (map_option float32)) stack"

text \<open>
  The extra results.  \<^verbatim>\<open>scales\<close> is bound only when a scaling was asked for, so
  \<^verbatim>\<open>ret_scales\<close> without \<^verbatim>\<open>scale\<close> is an \<^verbatim>\<open>UnboundLocalError\<close>.  The variance
  image has 0 where the variance is masked.
\<close>

datatype extra = Scales "real list" | Variance "real image"

definition stack_extras ::
  "rounding \<Rightarrow> pyobj \<Rightarrow> pyobj \<Rightarrow> real list option \<Rightarrow> msample cube \<Rightarrow> error + extra list" where
  "stack_extras float32 retScales withVariance scales imcube =
     seq (truthy retScales) (\<lambda>rs.
     seq (if rs then
            (case scales of None \<Rightarrow> Inl UnboundLocalError | Some s \<Rightarrow> Inr [Scales s])
          else Inr []) (\<lambda>e1.
     seq (truthy withVariance) (\<lambda>wv.
     Inr (e1 @ (if wv then
                  [Variance (map (map (\<lambda>ss. float32 (case ma_var ss of None \<Rightarrow> 0 | Some v \<Rightarrow> v)))
                               imcube)]
                else [])))))"

definition stack_image_cube ::
  "rounding \<Rightarrow> clipper \<Rightarrow> normalizer \<Rightarrow> msample cube \<Rightarrow> kwargs
     \<Rightarrow> error + (real option image \<times> extra list)" where
  "stack_image_cube float32 sigma_clip normfn imCube kw =
     (let reject = kw_get kw ''reject'' (PyStr ''sigma_clip'');
          method = kw_get kw ''method'' (PyStr ''mean'');
          scale = kw_get kw ''scale'' PyNone;
          weights = kw_get kw ''weights'' PyNone;
          withVariance = kw_get kw ''with_variance'' (PyBool False);
          retScales = kw_get kw ''ret_scales'' (PyBool False)
      in
      seq (stats_region (kw_get kw ''stats_region'' (PyStr ''amp_central_quadrant''))) (\<lambda>r.
      seq (unpack4 r) (\<lambda>reg.
        (let clipargs = (kw_get kw ''clip_iters'' (PyInt 2), kw_get kw ''clip_sig'' (PyFloat 2.5)) in
         seq (scale_cube normfn scale reg imCube) (\<lambda>(imcube, scales).
         seq (reject_cube sigma_clip reject clipargs imcube) (\<lambda>imcube.
         seq (combine_cube method weights imcube) (\<lambda>stack0.
           (let stack = astype float32 stack0 in
            seq (stack_extras float32 retScales withVariance scales imcube) (\<lambda>extras.
            Inr (stack, extras))))))))))"

section \<open>FITS headers and header-data units\<close>

text \<open>
  A header maps keywords to values; a header-data unit has an extension name, a header
  and, unless it is empty, a two-dimensional pixel array.
\<close>

datatype hval = HInt int | HFloat real | HStr string

type_synonym header = "string \<rightharpoonup> hval"

record hdu =
  hdu_extname :: string
  hdu_header :: header
  hdu_data :: "real image option"

definition hdr_get :: "header \<Rightarrow> string \<Rightarrow> error + hval" where
  "hdr_get hdr k = (case hdr k of None \<Rightarrow> Inl (KeyError k) | Some v \<Rightarrow> Inr v)"

section \<open>Overscan extraction\<close>

text \<open>
  \<^verbatim>\<open>_convertfitsreg\<close> matches the pattern
  \<^verbatim>\<open>\[(\d+):(\d+),(\d+):(\d+)\]\<close> at the beginning of the string and converts the
  four groups with \<^verbatim>\<open>int\<close>.  Without a match \<^verbatim>\<open>re.match\<close> returns
  \<^verbatim>\<open>None\<close>, whose attribute \<^verbatim>\<open>groups\<close> does not exist.  The first and the third
  number are then decremented, which turns the 1-indexed inclusive FITS ranges into
  0-indexed half-open ones.
\<close>

definition is_digit :: "char \<Rightarrow> bool" where
  "is_digit c = (48 \<le> (of_char c :: nat) \<and> (of_char c :: nat) \<le> 57)"

definition digits_val :: "string \<Rightarrow> nat" where
  "digits_val ds = foldl (\<lambda>a c. 10 * a + (of_char c - 48)) 0 ds"

definition expect :: "char \<Rightarrow> string \<Rightarrow> string option" where
  "expect c s = (case s of [] \<Rightarrow> None | x # r \<Rightarrow> if x = c then Some r else None)"

definition number :: "string \<Rightarrow> (int \<times> string) option" where
  "number s =
     (let ds = takeWhile is_digit s
      in if ds = [] then None else Some (int (digits_val ds), dropWhile is_digit s))"

definition match_fitsreg :: "string \<Rightarrow> (int \<times> int \<times> int \<times> int) option" where
  "match_fitsreg regstr =
     Option.bind (expect (CHR ''['') regstr) (\<lambda>s.
     Option.bind (number s) (\<lambda>(a, s).
     Option.bind (expect (CHR '':'') s) (\<lambda>s.
     Option.bind (number s) (\<lambda>(b, s).
     Option.bind (expect (CHR '','') s) (\<lambda>s.
     Option.bind (number s) (\<lambda>(c, s).
     Option.bind (expect (CHR '':'') s) (\<lambda>s.
     Option.bind (number s) (\<lambda>(d, s).
     Option.bind (expect (CHR '']'') s) (\<lambda>s. Some (a, b, c, d))))))))))"

definition convertfitsreg :: "hval \<Rightarrow> error + (int \<times> int \<times> int \<times> int)" where
  "convertfitsreg regstr =
     (case regstr of
        HStr s \<Rightarrow>
          (case match_fitsreg s of
             None \<Rightarrow> Inl AttributeError
           | Some (a, b, c, d) \<Rightarrow> Inr (a - 1, b, c - 1, d))
      | _ \<Rightarrow> Inl TypeError)"

text \<open>
  The comparison \<^verbatim>\<open>hdr['NAXIS2'] > y2+1\<close>.  The source is Python 2, where a string
  compares greater than every number.
\<close>

fun hval_gt :: "hval \<Rightarrow> int \<Rightarrow> bool" where
  "hval_gt (HInt n) k = (n > k)"
| "hval_gt (HFloat x) k = (x > real_of_int k)"
| "hval_gt (HStr s) k = True"

definition extract_overscan ::
  "hdu \<Rightarrow> error + (real image \<times> real image \<times> real image option)" where
  "extract_overscan imhdu =
     (let hdr = hdu_header imhdu in
      seq (hdr_get hdr ''BIASSEC'') (\<lambda>biassec.
      seq (convertfitsreg biassec) (\<lambda>(x1, x2, y1, y2).
        (case hdu_data imhdu of
           None \<Rightarrow> Inl TypeError
         | Some data \<Rightarrow>
             (let overscan_cols = slice2 data (Some y1) (Some y2) (Some x1) (Some x2) in
              seq (hdr_get hdr ''DATASEC'') (\<lambda>datasec.
              seq (convertfitsreg datasec) (\<lambda>(x1, x2, y1, y2).
              seq (hdr_get hdr ''NAXIS2'') (\<lambda>naxis2.
                (let overscan_rows =
                       (if hval_gt naxis2 (y2 + 1)
                        then Some (slice2 data (Some y2) None None None)
                        else None);
                     data' = slice2 data (Some y1) (Some y2) (Some x1) (Some x2)
                 in Inr (data', overscan_cols, overscan_rows))))))))))"

section \<open>Mosaic assembly\<close>

subsection \<open>Flips, rotations and stacking of two-dimensional arrays\<close>

text \<open>
  \<^verbatim>\<open>numpy.flipud\<close> reverses the order of the rows and \<^verbatim>\<open>numpy.fliplr\<close> the order
  of the columns.  \<^verbatim>\<open>numpy.rot90(m, k)\<close> rotates by \<open>k\<close> quarter turns
  counterclockwise: one turn is the transpose of the left-right flip, two turns are both
  flips, three turns are the left-right flip of the transpose.
\<close>

definition ncols :: "'a image \<Rightarrow> nat" where
  "ncols m = (case m of [] \<Rightarrow> 0 | r # _ \<Rightarrow> length r)"

definition flipud :: "'a image \<Rightarrow> 'a image" where
  "flipud m = rev m"

definition fliplr :: "'a image \<Rightarrow> 'a image" where
  "fliplr m = map rev m"

definition np_transpose :: "'a image \<Rightarrow> 'a image" where
  "np_transpose m = map (\<lambda>j. map (\<lambda>row. row ! j) m) [0 ..< ncols m]"

definition rot90 :: "nat \<Rightarrow> 'a image \<Rightarrow> 'a image" where
  "rot90 k m =
     (if k mod 4 = 0 then m
      else if k mod 4 = 2 then fliplr (flipud m)
      else if k mod 4 = 1 then np_transpose (fliplr m)
      else fliplr (np_transpose m))"

text \<open>
  \<^verbatim>\<open>numpy.hstack\<close> of two arrays puts them side by side and needs the same number
  of rows; \<^verbatim>\<open>numpy.vstack\<close> puts the first above the second and needs the same
  number of columns.
\<close>

definition hstack2 :: "'a image \<Rightarrow> 'a image \<Rightarrow> error + 'a image" where
  "hstack2 a b =
     (if length a = length b then Inr (map2 (@) a b) else Inl (ValueError ShapeMismatch))"

definition vstack2 :: "'a image \<Rightarrow> 'a image \<Rightarrow> error + 'a image" where
  "vstack2 a b =
     (if ncols a = ncols b then Inr (a @ b) else Inl (ValueError ShapeMismatch))"

subsection \<open>Formatting and header arithmetic\<close>

definition digit_char :: "nat \<Rightarrow> char" where
  "digit_char d = char_of (48 + d)"

fun show_nat :: "nat \<Rightarrow> string" where
  "show_nat n = (if n < 10 then [digit_char n] else show_nat (n div 10) @ [digit_char (n mod 10)])"

declare show_nat.simps [simp del]

text \<open>The conversion \<^verbatim>\<open>%d\<close>.\<close>

definition show_int :: "int \<Rightarrow> string" where
  "show_int i = (if i < 0 then CHR ''-'' # show_nat (nat (- i)) else show_nat (nat i))"

text \<open>
  \<^verbatim>\<open>np.max(np.abs([a, b]))\<close> for two header values: an integer when both are
  integers, a float when one of them is a float, and no value when one is a string.
\<close>

datatype scalar = SInt int | SFloat real

fun max_abs :: "hval \<Rightarrow> hval \<Rightarrow> error + scalar" where
  "max_abs (HStr s) b = Inl TypeError"
| "max_abs a (HStr s) = Inl TypeError"
| "max_abs (HInt a) (HInt b) = Inr (SInt (max \<bar>a\<bar> \<bar>b\<bar>))"
| "max_abs (HInt a) (HFloat b) = Inr (SFloat (max \<bar>real_of_int a\<bar> \<bar>b\<bar>))"
| "max_abs (HFloat a) (HInt b) = Inr (SFloat (max \<bar>a\<bar> \<bar>real_of_int b\<bar>))"
| "max_abs (HFloat a) (HFloat b) = Inr (SFloat (max \<bar>a\<bar> \<bar>b\<bar>))"

text \<open>The product of an integer and a scalar, as a header value.\<close>

fun times_card :: "int \<Rightarrow> scalar \<Rightarrow> hval" where
  "times_card k (SInt i) = HInt (k * i)"
| "times_card k (SFloat x) = HFloat (real_of_int k * x)"

text \<open>\<open>k + v\<close> and \<open>k - v\<close> for an integer \<open>k\<close> and a header value \<open>v\<close>.\<close>

fun hadd :: "int \<Rightarrow> hval \<Rightarrow> error + hval" where
  "hadd k (HInt i) = Inr (HInt (k + i))"
| "hadd k (HFloat x) = Inr (HFloat (real_of_int k + x))"
| "hadd k (HStr s) = Inl TypeError"

fun hsub :: "int \<Rightarrow> hval \<Rightarrow> error + hval" where
  "hsub k (HInt i) = Inr (HInt (k - i))"
| "hsub k (HFloat x) = Inr (HFloat (real_of_int k - x))"
| "hsub k (HStr s) = Inl TypeError"

text \<open>
  Indexing a Python list with two elements: positions \<open>0\<close> and \<open>1\<close>, and \<open>-2\<close> and
  \<open>-1\<close> from the end.
\<close>

definition pick2 :: "'a \<Rightarrow> 'a \<Rightarrow> int \<Rightarrow> error + 'a" where
  "pick2 a b i =
     (if i = 0 \<or> i = - 2 then Inr a else if i = 1 \<or> i = - 1 then Inr b else Inl IndexError)"

subsection \<open>\<^verbatim>\<open>_orient_mosaic\<close>\<close>

text \<open>
  The three parts of \<^verbatim>\<open>_orient_mosaic\<close>: the orientation and tiling of the four
  amplifier images, the transformation of the whole mosaic for the origin convention,
  and the header keywords.
\<close>

definition orient_image ::
  "real image \<times> real image \<times> real image \<times> real image \<Rightarrow> error + real image" where
  "orient_image ims =
     (case ims of (im1, im2, im3, im4) \<Rightarrow>
        seq (hstack2 (flipud (rot90 1 im2)) (rot90 3 im4)) (\<lambda>top.
        seq (hstack2 (rot90 1 im1) (fliplr (rot90 1 im3))) (\<lambda>bottom.
        vstack2 top bottom)))"

definition orient_whole :: "int \<Rightarrow> pyobj \<Rightarrow> real image \<Rightarrow> real image" where
  "orient_whole ccdNum origin outIm =
     (if origin = PyStr ''lower left'' then outIm
      else if origin = PyStr ''center'' then
        (if ccdNum = 1 then fliplr outIm
         else if ccdNum = 2 then rot90 2 outIm
         else if ccdNum = 3 then outIm
         else if ccdNum = 4 then flipud outIm
         else outIm)
      else outIm)"

definition orient_wcs :: "header \<Rightarrow> int \<Rightarrow> pyobj \<Rightarrow> int \<Rightarrow> int \<Rightarrow> error + header" where
  "orient_wcs hdr0 ccdNum origin nx ny =
     (let det_i = (ccdNum - 1) div 2;
          det_j = ccdNum mod 2;
          hdr1 = hdr0(''DATASEC'' \<mapsto>
                   HStr (''[1:'' @ show_int nx @ '',1:'' @ show_int ny @ '']''));
          hdr = hdr1(''DETSEC'' \<mapsto>
                   HStr (''['' @ show_int (nx * det_i + 1) @ '':'' @ show_int (nx * (det_i + 1))
                         @ '','' @ show_int (ny * det_j + 1) @ '':'' @ show_int (ny * (det_j + 1))
                         @ '']''))
      in
      seq (hdr_get hdr ''CD1_1'') (\<lambda>cd11.
      seq (hdr_get hdr ''CD1_2'') (\<lambda>cd12.
      seq (max_abs cd11 cd12) (\<lambda>plateScale.
        (if origin = PyStr ''center'' then
           seq (pick2 (- 1) 1 det_i) (\<lambda>signx.
           seq (pick2 (- 1) 1 det_j) (\<lambda>signy.
           seq (pick2 4096 (- 4097) det_i) (\<lambda>ltv1.
           seq (pick2 4033 (- 4032) det_j) (\<lambda>ltv2.
           Inr (hdr(''CD1_1'' \<mapsto> HFloat 0, ''CD2_2'' \<mapsto> HFloat 0,
                    ''CD2_1'' \<mapsto> times_card (- signx) plateScale,
                    ''CD1_2'' \<mapsto> times_card signy plateScale,
                    ''CRPIX1'' \<mapsto> HFloat (- 182.01), ''CRPIX2'' \<mapsto> HFloat (- 59.04),
                    ''LTM1_1'' \<mapsto> HFloat (real_of_int signx),
                    ''LTM2_2'' \<mapsto> HFloat (real_of_int signy),
                    ''LTV1'' \<mapsto> HFloat ltv1, ''LTV2'' \<mapsto> HFloat ltv2))))))
         else if origin = PyStr ''lower left'' then
           (let hdr2 = hdr(''LTM1_1'' \<mapsto> HFloat 1, ''LTM2_2'' \<mapsto> HFloat 1,
                           ''LTV1'' \<mapsto> HInt (if det_i = 0 then 0 else - nx),
                           ''LTV2'' \<mapsto> HInt (if det_j = 0 then 0 else - ny),
                           ''CD1_1'' \<mapsto> HFloat 0, ''CD1_2'' \<mapsto> times_card 1 plateScale,
                           ''CD2_1'' \<mapsto> times_card (- 1) plateScale, ''CD2_2'' \<mapsto> HFloat 0)
            in
            seq (hdr_get hdr2 ''CRPIX1'') (\<lambda>crpix1.
            seq (hdr_get hdr2 ''CRPIX2'') (\<lambda>crpix2.
            seq (if det_i = 0 then hsub (1 + nx) crpix2 else hadd 1 crpix2) (\<lambda>c1.
            seq (if det_j = 0 then hsub ny crpix1 else Inr crpix1) (\<lambda>c2.
            Inr (hdr2(''CRPIX1'' \<mapsto> c1, ''CRPIX2'' \<mapsto> c2)))))))
         else Inr hdr)))))"

definition orient_mosaic ::
  "header \<Rightarrow> real image \<times> real image \<times> real image \<times> real image \<Rightarrow> int \<Rightarrow> pyobj
     \<Rightarrow> error + (real image \<times> header)" where
  "orient_mosaic hdr ims ccdNum origin =
     seq (orient_image ims) (\<lambda>tiled.
       (let outIm = orient_whole ccdNum origin tiled;
            ny = int (length outIm);
            nx = int (ncols outIm)
        in seq (orient_wcs hdr ccdNum origin nx ny) (\<lambda>hdr'. Inr (outIm, hdr'))))"

subsection \<open>The orientation in the words of the specification\<close>

text \<open>
  The transformations that the specification names, each given by the pixel of the input
  that lands at row \<open>i\<close> and column \<open>j\<close> of the result: a rotation by 90 degrees
  counterclockwise, by 180 and by 270 degrees, the vertical flip (rows in the opposite
  order) and the horizontal flip (columns in the opposite order).  \<open>spec_tile\<close> is the
  two-by-two layout with \<open>a\<close> and \<open>b\<close> in its top row and \<open>c\<close> and \<open>d\<close> in its
  bottom row.
\<close>

definition spec_rotate90 :: "'a image \<Rightarrow> 'a image" where
  "spec_rotate90 m =
     map (\<lambda>i. map (\<lambda>j. m ! j ! (ncols m - 1 - i)) [0 ..< length m]) [0 ..< ncols m]"

definition spec_rotate270 :: "'a image \<Rightarrow> 'a image" where
  "spec_rotate270 m =
     map (\<lambda>i. map (\<lambda>j. m ! (length m - 1 - j) ! i) [0 ..< length m]) [0 ..< ncols m]"

definition spec_rotate180 :: "'a image \<Rightarrow> 'a image" where
  "spec_rotate180 m =
     map (\<lambda>i. map (\<lambda>j. m ! (length m - 1 - i) ! (ncols m - 1 - j)) [0 ..< ncols m])
         [0 ..< length m]"

definition spec_flip_vertical :: "'a image \<Rightarrow> 'a image" where
  "spec_flip_vertical m = map (\<lambda>i. m ! (length m - 1 - i)) [0 ..< length m]"

definition spec_flip_horizontal :: "'a image \<Rightarrow> 'a image" where
  "spec_flip_horizontal m =
     map (\<lambda>i. map (\<lambda>j. m ! i ! (ncols m - 1 - j)) [0 ..< ncols m]) [0 ..< length m]"

definition spec_tile :: "'a image \<Rightarrow> 'a image \<Rightarrow> 'a image \<Rightarrow> 'a image \<Rightarrow> 'a image" where
  "spec_tile a b c d = map2 (@) a b @ map2 (@) c d"

definition spec_mosaic ::
  "'a image \<times> 'a image \<times> 'a image \<times> 'a image \<Rightarrow> 'a image" where
  "spec_mosaic ims =
     (case ims of (im1, im2, im3, im4) \<Rightarrow>
        spec_tile (spec_flip_vertical (spec_rotate90 im2)) (spec_rotate270 im4)
                  (spec_rotate90 im1) (spec_flip_horizontal (spec_rotate90 im3)))"

definition spec_center :: "int \<Rightarrow> 'a image \<Rightarrow> 'a image" where
  "spec_center ccdNum m =
     (if ccdNum = 1 then spec_flip_horizontal m
      else if ccdNum = 2 then spec_rotate180 m
      else if ccdNum = 3 then m
      else spec_flip_vertical m)"

section \<open>FITS files and image cubes\<close>

text \<open>
  A FITS file is the list of its header-data units, and the file system maps a path to
  the file stored there.  \<^verbatim>\<open>fitsio\<close> looks an extension up by its name without
  regard to the case of the letters and takes the first unit that bears the name; a unit
  without a name is not found by name.  An integer selects a unit by its position, as
  in a Python list, and \<^verbatim>\<open>None\<close> the first unit that holds data.
  \<^verbatim>\<open>fitsio.read(f, extn)\<close> returns the pixel array of the extension \<open>extn\<close> of
  the file \<open>f\<close>; a missing file or extension is an \<^verbatim>\<open>IOError\<close>.
\<close>

type_synonym fits = "hdu list"
type_synonym filesys = "string \<rightharpoonup> fits"

definition lower :: "string \<Rightarrow> string" where
  "lower s =
     map (\<lambda>c. if 65 \<le> (of_char c :: nat) \<and> (of_char c :: nat) \<le> 90
              then char_of (of_char c + 32 :: nat) else c) s"

definition fits_ext :: "fits \<Rightarrow> string \<Rightarrow> error + hdu" where
  "fits_ext hdus extn =
     (case find (\<lambda>h. hdu_extname h \<noteq> [] \<and> lower (hdu_extname h) = lower extn) hdus of
        None \<Rightarrow> Inl (IOError extn)
      | Some h \<Rightarrow> Inr h)"

definition fits_item :: "fits \<Rightarrow> pyobj \<Rightarrow> error + hdu" where
  "fits_item hdus extn =
     (case extn of
        PyStr name \<Rightarrow> fits_ext hdus name
      | PyInt i \<Rightarrow>
          if 0 \<le> i \<and> i < int (length hdus) then Inr (hdus ! nat i)
          else if - int (length hdus) \<le> i \<and> i < 0 then Inr (hdus ! nat (i + int (length hdus)))
          else Inl (IOError (show_int i))
      | PyNone \<Rightarrow>
          (case find (\<lambda>h. hdu_data h \<noteq> None) hdus of
             None \<Rightarrow> Inl (IOError ''no extensions have data'')
           | Some h \<Rightarrow> Inr h)
      | _ \<Rightarrow> Inl (IOError ''extension not found''))"

definition fits_hdu :: "filesys \<Rightarrow> string \<Rightarrow> pyobj \<Rightarrow> error + hdu" where
  "fits_hdu fs f extn =
     (case fs f of
        None \<Rightarrow> Inl (IOError f)
      | Some hdus \<Rightarrow> fits_item hdus extn)"

definition fits_read :: "filesys \<Rightarrow> string \<Rightarrow> pyobj \<Rightarrow> error + real image" where
  "fits_read fs f extn =
     seq (fits_hdu fs f extn) (\<lambda>h.
       (case hdu_data h of None \<Rightarrow> Inl TypeError | Some im \<Rightarrow> Inr im))"

text \<open>
  The argument \<^verbatim>\<open>masks\<close> of \<^verbatim>\<open>build_cube\<close>: \<^verbatim>\<open>None\<close>, a
  \<^verbatim>\<open>FileNameMap\<close> (a function from the name of an image file to the name of its mask
  file), or a sequence of mask file names.
\<close>

datatype masks_arg = NoMasks | MaskMap "string \<Rightarrow> string" | MaskFiles "string list"

definition build_cube ::
  "filesys \<Rightarrow> string list \<Rightarrow> pyobj \<Rightarrow> masks_arg \<Rightarrow> error + msample cube" where
  "build_cube fs fileList extn masks =
     seq (seq_list (\<lambda>f. fits_read fs f extn) fileList) (\<lambda>ims.
     seq (dstack ims) (\<lambda>cube.
     seq (case masks of
            MaskMap g \<Rightarrow>
              seq (seq_list (\<lambda>f. fits_read fs (g f) extn) fileList) (\<lambda>ms.
              seq (dstack ms) (\<lambda>m. Inr (Some m)))
          | MaskFiles fl \<Rightarrow>
              seq (seq_list (\<lambda>f. fits_read fs f extn) fl) (\<lambda>ms.
              seq (dstack ms) (\<lambda>m. Inr (Some m)))
          | NoMasks \<Rightarrow> Inr None) (\<lambda>mk.
     masked_array cube mk)))"

section \<open>Gain balancing\<close>

subsection \<open>Amplifier tables\<close>

definition ampOrder :: "nat list" where
  "ampOrder = [4, 3, 2, 1, 8, 7, 6, 5, 9, 10, 11, 12, 13, 14, 15, 16]"

definition bokCenterAmps :: "string list" where
  "bokCenterAmps = [''IM4'', ''IM7'', ''IM10'', ''IM13'']"

definition nominal_gain :: "real list" where
  "nominal_gain =
     [1.24556017, 1.29317832, 1.31759822, 1.28293753,
      1.44988859, 1.52633166, 1.42589855, 1.51268101,
      1.33969975, 1.39347458, 1.3766073, 1.39406121,
      1.42733335, 1.38764536, 1.40, 1.45403028]"

subsection \<open>Floats, indices and keywords\<close>

text \<open>
  Division of \<^verbatim>\<open>numpy\<close> floats.  A division by zero does not raise: it gives
  \<^verbatim>\<open>nan\<close> or an infinity (with a warning), and the computation goes on with that
  value.  The pixel values of the model are real numbers, which have no such value, so
  the model stops there with \<open>NotFinite\<close>: this outcome stands for a float result that
  is not a finite number, never for an exception of the source.
\<close>

definition fdiv :: "real \<Rightarrow> real \<Rightarrow> error + real" where
  "fdiv a b = (if b = 0 then Inl NotFinite else Inr (a / b))"

text \<open>
  \<^verbatim>\<open>np.where(extGroup == name)[0][0]\<close>: the first position of \<open>name\<close> in the array
  of extension names, and an \<^verbatim>\<open>IndexError\<close> when it is absent.
\<close>

fun where_first :: "string list \<Rightarrow> string \<Rightarrow> error + nat" where
  "where_first [] name = Inl IndexError"
| "where_first (x # xs) name =
     (if x = name then Inr 0 else seq (where_first xs name) (\<lambda>i. Inr (Suc i)))"

text \<open>
  \<^verbatim>\<open>(set(extGroup) & set(bokCenterAmps)).pop()\<close>: an element of the intersection,
  and a \<^verbatim>\<open>KeyError\<close> when it is empty.  Every group that \<^verbatim>\<open>combine_ccds\<close> builds
  holds exactly one center amplifier.  For a group with several, Python returns the one
  that comes first in the hash table of the set; the model returns the first one of
  the group.
\<close>

definition center_amp :: "string list \<Rightarrow> error + string" where
  "center_amp extGroup =
     (case filter (\<lambda>e. e \<in> set bokCenterAmps) extGroup of
        [] \<Rightarrow> Inl (KeyError ''pop from an empty set'')
      | e # _ \<Rightarrow> Inr e)"

text \<open>\<^verbatim>\<open>ext.replace('IM','')\<close> removes every occurrence of \<^verbatim>\<open>IM\<close>, from the left.\<close>

fun remove_IM :: "string \<Rightarrow> string" where
  "remove_IM (a # b # r) =
     (if a = CHR ''I'' \<and> b = CHR ''M'' then remove_IM r else a # remove_IM (b # r))"
| "remove_IM s = s"

text \<open>
  \<^verbatim>\<open>int(s)\<close> for a string: white space around the literal is ignored, a sign may
  come first, and the rest must be decimal digits, at least one.
\<close>

definition is_space :: "char \<Rightarrow> bool" where
  "is_space c = ((of_char c :: nat) = 32 \<or> (9 \<le> (of_char c :: nat) \<and> (of_char c :: nat) \<le> 13))"

definition strip :: "string \<Rightarrow> string" where
  "strip s = rev (dropWhile is_space (rev (dropWhile is_space s)))"

definition py_int :: "string \<Rightarrow> error + int" where
  "py_int s =
     (let t = strip s;
          neg = (t \<noteq> [] \<and> hd t = CHR ''-'');
          ds = (if t \<noteq> [] \<and> (hd t = CHR ''-'' \<or> hd t = CHR ''+'') then tl t else t)
      in if ds \<noteq> [] \<and> list_all is_digit ds
         then Inr (if neg then - int (digits_val ds) else int (digits_val ds))
         else Inl (ValueError IntLiteral))"

text \<open>The conversion \<^verbatim>\<open>%02d\<close>: at least two characters, padded with a zero.\<close>

definition show_02d :: "int \<Rightarrow> string" where
  "show_02d n = (if 0 \<le> n \<and> n < 10 then CHR ''0'' # show_int n else show_int n)"

text \<open>
  The keyword \<^verbatim>\<open>'GAIN%02d%s1' % (chNum,'ABCD'[i])\<close> of amplifier \<open>ext\<close>, the \<open>i\<close>-th
  of its group, and its variants with another prefix or last character.  The channel
  number is computed first.
\<close>

definition card_key :: "string \<Rightarrow> int \<Rightarrow> nat \<Rightarrow> char \<Rightarrow> string" where
  "card_key prefix chNum i digit = prefix @ show_02d chNum @ [''ABCD'' ! i, digit]"

definition amp_key :: "string \<Rightarrow> string \<Rightarrow> nat \<Rightarrow> char \<Rightarrow> error + string" where
  "amp_key prefix ext i digit =
     seq (py_int (remove_IM ext)) (\<lambda>chNum.
       if i < 4 then Inr (card_key prefix chNum i digit) else Inl IndexError)"

text \<open>A loop \<^verbatim>\<open>for i,x in enumerate(xs)\<close> whose body updates a state and may raise.\<close>

fun for_enumerate :: "(nat \<Rightarrow> 'a \<Rightarrow> 's \<Rightarrow> error + 's) \<Rightarrow> nat \<Rightarrow> 'a list \<Rightarrow> 's \<Rightarrow> error + 's" where
  "for_enumerate body i [] s = Inr s"
| "for_enumerate body i (x # xs) s = seq (body i x s) (for_enumerate body (Suc i) xs)"

subsection \<open>Reading an open file\<close>

text \<open>
  \<^verbatim>\<open>inFits[ext]\<close> is the first header-data unit with that extension name;
  \<^verbatim>\<open>read()\<close> returns its array, or \<^verbatim>\<open>None\<close> when the unit holds no data.
\<close>

definition ext_read :: "fits \<Rightarrow> string \<Rightarrow> error + real image option" where
  "ext_read inFits ext = seq (fits_ext inFits ext) (\<lambda>h. Inr (hdu_data h))"

text \<open>
  A bound of a slice: \<^verbatim>\<open>None\<close> or an integer.  The statistics region
  \<^verbatim>\<open>im[y1:y2,x1:x2]\<close> of an image; \<^verbatim>\<open>None\<close> in the place of the image cannot be
  indexed.
\<close>

fun slice_arg :: "pyobj \<Rightarrow> error + int option" where
  "slice_arg PyNone = Inr None"
| "slice_arg (PyInt i) = Inr (Some i)"
| "slice_arg (PyBool b) = Inr (Some (if b then 1 else 0))"
| "slice_arg _ = Inl TypeError"

definition stat_slice ::
  "real image option \<Rightarrow> pyobj \<Rightarrow> pyobj \<Rightarrow> pyobj \<Rightarrow> pyobj \<Rightarrow> error + real image" where
  "stat_slice im y1 y2 x1 x2 =
     (case im of
        None \<Rightarrow> Inl TypeError
      | Some a \<Rightarrow>
          seq (slice_arg y1) (\<lambda>r1.
          seq (slice_arg y2) (\<lambda>r2.
          seq (slice_arg x1) (\<lambda>c1.
          seq (slice_arg x2) (\<lambda>c2.
          Inr (slice2 a r1 r2 c1 c2))))))"

text \<open>\<^verbatim>\<open>im*g\<close>\<close>

definition times_gain :: "real image option \<Rightarrow> real \<Rightarrow> error + real image" where
  "times_gain im g =
     (case im of None \<Rightarrow> Inl TypeError | Some a \<Rightarrow> Inr (map (map (\<lambda>v. v * g)) a))"

subsection \<open>\<^verbatim>\<open>multiply_gain\<close>\<close>

text \<open>
  The sky level of a region is \<^verbatim>\<open>sky_est(sigma_clip(region, **clipArgs))\<close> with
  \<^verbatim>\<open>sky_est = np.ma.mean\<close>: the mean of the pixels that the iterative clipping of
  \<^verbatim>\<open>astropy.stats.sigma_clip\<close> keeps.  The clipping is library code; the measurement
  is the parameter \<open>sky\<close> of the model and receives the values of \<^verbatim>\<open>iters\<close> and
  \<^verbatim>\<open>sig\<close>.
\<close>

type_synonym sky_estimator = "pyobj \<times> pyobj \<Rightarrow> real image \<Rightarrow> error + real"

text \<open>
  The two loops that store the header cards: with the sky correction the raw sky level,
  the input gain and the intra-CCD factor of every amplifier, without it the input gain
  only.
\<close>

definition sky_cards ::
  "real list \<Rightarrow> real list \<Rightarrow> real list \<Rightarrow> nat \<Rightarrow> string \<Rightarrow> header \<Rightarrow> error + header" where
  "sky_cards rawSky gain gain2 i ext hdr =
     seq (amp_key ''SKYC'' ext i (CHR ''1'')) (\<lambda>k0.
     seq (amp_key ''GAIN'' ext i (CHR ''1'')) (\<lambda>k1.
     seq (amp_key ''GAIN'' ext i (CHR ''2'')) (\<lambda>k2.
     Inr (hdr(k0 \<mapsto> HFloat (rawSky ! i), k1 \<mapsto> HFloat (gain ! i),
              k2 \<mapsto> HFloat (gain2 ! i))))))"

definition gain_cards :: "real list \<Rightarrow> nat \<Rightarrow> string \<Rightarrow> header \<Rightarrow> error + header" where
  "gain_cards gain i ext hdr =
     seq (amp_key ''GAIN'' ext i (CHR ''1'')) (\<lambda>k1. Inr (hdr(k1 \<mapsto> HFloat (gain ! i))))"

definition input_gain :: "(string \<rightharpoonup> real) \<Rightarrow> string \<Rightarrow> error + real" where
  "input_gain inputGain ext =
     (case inputGain ext of None \<Rightarrow> Inl (KeyError ext) | Some g \<Rightarrow> Inr g)"

text \<open>
  \<^verbatim>\<open>multiply_gain\<close> returns the scaled amplifier images and the sky counts of the
  center amplifier (\<^verbatim>\<open>None\<close> without the sky correction); it also updates the header
  it was given, which the model returns as a third component.
\<close>

definition multiply_gain ::
  "sky_estimator \<Rightarrow> fits \<Rightarrow> string list \<Rightarrow> header \<Rightarrow> bool \<Rightarrow> (string \<rightharpoonup> real) \<Rightarrow> pyobj \<Rightarrow> pyobj
     \<Rightarrow> pyobj \<times> pyobj \<Rightarrow> real option \<Rightarrow> string
     \<Rightarrow> error + (real image list \<times> real option \<times> header)" where
  "multiply_gain sky inFits extGroup hdr skyGainCor inputGain ampCorStatReg ccdCorStatReg
       clipArgs skyIn refAmp =
     seq (unpack4 ampCorStatReg) (\<lambda>(xa1, xa2, ya1, ya2).
     seq (unpack4 ccdCorStatReg) (\<lambda>(xc1, xc2, yc1, yc2).
     seq (seq_list (ext_read inFits) extGroup) (\<lambda>ampIms.
     seq (seq_list (input_gain inputGain) extGroup) (\<lambda>gain.
       if skyGainCor then
         seq (seq_list (\<lambda>im. seq (stat_slice im ya1 ya2 xa1 xa2) (sky clipArgs)) ampIms)
           (\<lambda>rawSky.
         (let skyCounts = map2 (*) rawSky gain in
          seq (where_first extGroup refAmp) (\<lambda>refAmpIndex.
          seq (seq_list (fdiv (skyCounts ! refAmpIndex)) skyCounts) (\<lambda>gain2.
          seq (center_amp extGroup) (\<lambda>centerAmp.
          seq (where_first extGroup centerAmp) (\<lambda>ci.
          seq (seq (stat_slice (ampIms ! ci) yc1 yc2 xc1 xc2) (sky clipArgs)) (\<lambda>rawSky2.
          (let skyCounts = rawSky2 * (gain ! ci * gain2 ! ci) in
           seq (case skyIn of None \<Rightarrow> Inr 1 | Some s \<Rightarrow> fdiv s skyCounts) (\<lambda>gain3.
           seq (for_enumerate (sky_cards rawSky gain gain2) 0 extGroup hdr) (\<lambda>hdr1.
           (let hdr2 = hdr1(''CCDGAIN3'' \<mapsto> HFloat gain3);
                gain' = map2 (\<lambda>g g2. g * (g2 * gain3)) gain gain2
            in seq (seq_list (\<lambda>(im, g). times_gain im g) (zip ampIms gain')) (\<lambda>ims.
               Inr (ims, Some skyCounts, hdr2)))))))))))))
       else
         seq (for_enumerate (gain_cards gain) 0 extGroup hdr) (\<lambda>hdr1.
         seq (seq_list (\<lambda>(im, g). times_gain im g) (zip ampIms gain)) (\<lambda>ims.
         Inr (ims, None, hdr1)))))))"

subsection \<open>A sky estimator and a CCD with flat amplifier images\<close>

text \<open>
  With \<^verbatim>\<open>iters = 0\<close> the clipping rejects nothing and the sky level is the mean of
  the pixels of the region; an empty region has no finite mean.  On a region whose pixels
  all hold one value the estimator returns that value, as the clipped mean does for any
  number of iterations.
\<close>

definition mean_sky :: sky_estimator where
  "mean_sky clipArgs im =
     (let vs = concat im
      in if vs = [] then Inl NotFinite else Inr (sum_list vs / real (length vs)))"

definition amp_hdu :: "string \<Rightarrow> real \<Rightarrow> hdu" where
  "amp_hdu name v =
     \<lparr>hdu_extname = name, hdu_header = Map.empty, hdu_data = Some [[v, v], [v, v]]\<rparr>"

definition flat_ccd :: "real \<Rightarrow> real \<Rightarrow> real \<Rightarrow> real \<Rightarrow> fits" where
  "flat_ccd a b c d = [amp_hdu ''IM1'' a, amp_hdu ''IM2'' b, amp_hdu ''IM3'' c, amp_hdu ''IM4'' d]"

definition example_gain :: "string \<rightharpoonup> real" where
  "example_gain = [''IM1'' \<mapsto> 1, ''IM2'' \<mapsto> 2, ''IM3'' \<mapsto> 4, ''IM4'' \<mapsto> 5]"

definition example_group :: "string list" where
  "example_group = [''IM1'', ''IM2'', ''IM3'', ''IM4'']"

definition whole_amp :: pyobj where
  "whole_amp = PyTuple [PyInt 0, PyInt 2, PyInt 0, PyInt 2]"

section \<open>Bias stacking\<close>

subsection \<open>Paths and formats\<close>

definition ends_with :: "string \<Rightarrow> string \<Rightarrow> bool" where
  "ends_with s p = (length p \<le> length s \<and> drop (length s - length p) s = p)"

text \<open>
  \<^verbatim>\<open>os.path.join(a, b)\<close> on a POSIX system: \<open>b\<close> alone when it is absolute, otherwise
  \<open>a\<close> and \<open>b\<close> with a slash between them unless \<open>a\<close> is empty or ends with one.  The
  function calls \<^verbatim>\<open>startswith\<close> on \<open>b\<close> and \<^verbatim>\<open>endswith\<close> on \<open>a\<close>, which only
  strings have.
\<close>

definition path_join :: "pyobj \<Rightarrow> pyobj \<Rightarrow> error + string" where
  "path_join a b =
     (case b of
        PyStr sb \<Rightarrow>
          if starts_with sb ''/'' then Inr sb
          else (case a of
                  PyStr sa \<Rightarrow>
                    Inr (if sa = [] \<or> ends_with sa ''/'' then sa @ sb else sa @ ''/'' @ sb)
                | _ \<Rightarrow> Inl AttributeError)
      | _ \<Rightarrow> Inl AttributeError)"

text \<open>\<^verbatim>\<open>os.path.basename\<close>: what follows the last slash.\<close>

definition basename :: "string \<Rightarrow> string" where
  "basename f = rev (takeWhile (\<lambda>c. c \<noteq> CHR ''/'') (rev f))"

text \<open>The conversion \<^verbatim>\<open>%03d\<close> of a number that is not negative.\<close>

definition show_03d :: "nat \<Rightarrow> string" where
  "show_03d n = (let d = show_nat n in replicate (3 - length d) (CHR ''0'') @ d)"

text \<open>
  Iteration over a Python value: the elements of a list or tuple, the characters of a
  string, the elements of an array; other values are not iterable.
\<close>

fun iterate :: "pyobj \<Rightarrow> error + pyobj list" where
  "iterate (PyList xs) = Inr xs"
| "iterate (PyTuple xs) = Inr xs"
| "iterate (PyStr s) = Inr (map (\<lambda>c. PyStr [c]) s)"
| "iterate (PyArray a) = Inr (map PyFloat a)"
| "iterate _ = Inl TypeError"

subsection \<open>Operations on the file system\<close>

text \<open>
  A step of a function that reads and writes files takes the file system and returns
  its result, a value or an exception, together with the file system it leaves.  What
  was written before an exception stays written.
\<close>

type_synonym 'a io = "filesys \<Rightarrow> (error + 'a) \<times> filesys"

definition io_return :: "'a \<Rightarrow> 'a io" where
  "io_return x fs = (Inr x, fs)"

definition io_try :: "(filesys \<Rightarrow> error + 'a) \<Rightarrow> 'a io" where
  "io_try f fs = (f fs, fs)"

definition io_bind :: "'a io \<Rightarrow> ('a \<Rightarrow> 'b io) \<Rightarrow> 'b io" where
  "io_bind m f fs = (case m fs of (Inl e, fs') \<Rightarrow> (Inl e, fs') | (Inr x, fs') \<Rightarrow> f x fs')"

fun io_for :: "('a \<Rightarrow> unit io) \<Rightarrow> 'a list \<Rightarrow> unit io" where
  "io_for body [] = io_return ()"
| "io_for body (x # xs) = io_bind (body x) (\<lambda>u. io_for body xs)"

text \<open>
  \<^verbatim>\<open>fitsio.FITS(path,'rw')\<close> opens the file for reading and writing and creates it
  when it does not exist; \<^verbatim>\<open>write\<close> appends a header-data unit to it.
\<close>

definition fits_create :: "string \<Rightarrow> unit io" where
  "fits_create path fs = (Inr (), (case fs path of None \<Rightarrow> fs(path \<mapsto> []) | Some hdus \<Rightarrow> fs))"

definition fits_write :: "string \<Rightarrow> hdu \<Rightarrow> unit io" where
  "fits_write path h fs =
     (case fs path of
        None \<Rightarrow> (Inl (IOError path), fs)
      | Some hdus \<Rightarrow> (Inr (), fs(path \<mapsto> hdus @ [h])))"

text \<open>
  The unit that \<^verbatim>\<open>write(None,header=hdr)\<close> appends holds the header and no data; the
  unit that \<^verbatim>\<open>write(data,extname=extn,header=hdr)\<close> appends is named by \<open>extn\<close>.
  Without that argument the name is the one the header carries, if any.
\<close>

definition header_name :: "header \<Rightarrow> string" where
  "header_name hdr = (case hdr ''EXTNAME'' of Some (HStr n) \<Rightarrow> n | _ \<Rightarrow> [])"

definition header_hdu :: "header \<Rightarrow> hdu" where
  "header_hdu hdr = \<lparr>hdu_extname = header_name hdr, hdu_header = hdr, hdu_data = None\<rparr>"

definition image_hdu :: "pyobj \<Rightarrow> header \<Rightarrow> real image \<Rightarrow> hdu" where
  "image_hdu extn hdr data =
     \<lparr>hdu_extname = (case extn of PyStr n \<Rightarrow> n | PyInt i \<Rightarrow> show_int i | _ \<Rightarrow> header_name hdr),
      hdu_header = hdr, hdu_data = Some data\<rparr>"

definition read_header :: "filesys \<Rightarrow> string \<Rightarrow> pyobj \<Rightarrow> error + header" where
  "read_header fs f extn = seq (fits_hdu fs f extn) (\<lambda>h. Inr (hdu_header h))"

subsection \<open>\<^verbatim>\<open>_write_stack_header_cards\<close>\<close>

text \<open>
  The header of the first unit of the first file, with one card for each file of the
  list: the prefix and the number of the file, counted from 1, name the card, and the
  base name of the file is its value.
\<close>

definition write_stack_header_cards :: "filesys \<Rightarrow> string list \<Rightarrow> string \<Rightarrow> error + header" where
  "write_stack_header_cards fs fileList cardPrefix =
     (case fileList of
        [] \<Rightarrow> Inl IndexError
      | f0 # rest \<Rightarrow>
          seq (read_header fs f0 (PyInt 0)) (\<lambda>hdr.
          Inr (foldl (\<lambda>h (num, f). h(cardPrefix @ show_03d num \<mapsto> HStr (basename f))) hdr
                 (zip [1 ..< Suc (length fileList)] fileList))))"

subsection \<open>\<^verbatim>\<open>stack_bias_frames\<close>\<close>

definition bok90mef_extensions :: "string list" where
  "bok90mef_extensions = map (\<lambda>a. ''IM'' @ show_nat a) ampOrder"

text \<open>
  After the stacking, a pixel of the stack that is masked takes the median of the
  pixels of its column that are not masked.  Where a whole column is masked the median
  is masked too, and the value that \<^verbatim>\<open>numpy\<close> keeps under it is the parameter
  \<open>blank\<close> of the model.
\<close>

definition column_median :: "real option image \<Rightarrow> nat \<Rightarrow> real option" where
  "column_median stack j =
     ma_median (map (\<lambda>row. case row ! j of None \<Rightarrow> (0, True) | Some x \<Rightarrow> (x, False)) stack)"

definition fill_dropped_rows :: "real \<Rightarrow> real option image \<Rightarrow> real image" where
  "fill_dropped_rows blank stack =
     map (\<lambda>row. map (\<lambda>(j, v). case v of
                                  Some x \<Rightarrow> x
                                | None \<Rightarrow> (case column_median stack j of
                                             Some m \<Rightarrow> m | None \<Rightarrow> blank))
                   (zip [0 ..< length row] row)) stack"

text \<open>\<^verbatim>\<open>extras[0]\<close> as the image written to the variance file.\<close>

fun first_extra :: "extra list \<Rightarrow> error + real image" where
  "first_extra [] = Inl IndexError"
| "first_extra (Scales s # es) = Inr [s]"
| "first_extra (Variance v # es) = Inr v"

text \<open>
  The search for dropped rows that \<^verbatim>\<open>check_dropped_rows\<close> switches on masks rows
  at the bottom of single frames of the cube.  It is built from
  \<^verbatim>\<open>astropy.stats.sigma_clip\<close> and the statistics of \<^verbatim>\<open>numpy\<close> and is the parameter
  \<open>check_rows\<close> of the model.  The body of the loop over the extensions:
\<close>

definition bias_extension ::
  "rounding \<Rightarrow> clipper \<Rightarrow> normalizer \<Rightarrow> (msample cube \<Rightarrow> error + msample cube) \<Rightarrow> real
     \<Rightarrow> string list \<Rightarrow> kwargs \<Rightarrow> string \<Rightarrow> string option \<Rightarrow> pyobj \<Rightarrow> pyobj \<Rightarrow> unit io" where
  "bias_extension float32 sigma_clip normfn check_rows blank fileList kwargs path varpath
       check_dropped_rows extn =
     io_bind (io_try (\<lambda>fs. build_cube fs fileList extn NoMasks)) (\<lambda>cube.
     io_bind (io_try (\<lambda>fs. truthy check_dropped_rows)) (\<lambda>check.
     io_bind (io_try (\<lambda>fs. if check then check_rows cube else Inr cube)) (\<lambda>biasCube.
     io_bind (io_try (\<lambda>fs. stack_image_cube float32 sigma_clip normfn biasCube kwargs))
       (\<lambda>(stack, extras).
     io_bind (io_try (\<lambda>fs. case fileList of
                               [] \<Rightarrow> Inl IndexError
                             | f0 # rest \<Rightarrow> read_header fs f0 extn)) (\<lambda>hdr.
     io_bind (fits_write path (image_hdu extn hdr (fill_dropped_rows blank stack))) (\<lambda>u.
       (case varpath of
          None \<Rightarrow> io_return ()
        | Some vp \<Rightarrow>
            io_bind (io_try (\<lambda>fs. first_extra extras)) (\<lambda>var.
            fits_write vp (image_hdu extn hdr var)))))))))"

definition stack_bias_frames ::
  "rounding \<Rightarrow> clipper \<Rightarrow> normalizer \<Rightarrow> (msample cube \<Rightarrow> error + msample cube) \<Rightarrow> real
     \<Rightarrow> string list \<Rightarrow> kwargs \<Rightarrow> unit io" where
  "stack_bias_frames float32 sigma_clip normfn check_rows blank fileList kwargs0 =
     (let extensions = kw_get kwargs0 ''extensions'' (PyList (map PyStr bok90mef_extensions));
          outputDir = kw_get kwargs0 ''output_dir'' (PyStr ''./'');
          outputFile = kw_get kwargs0 ''output_file'' (PyStr ''bias.fits'');
          withVariance = kw_get kwargs0 ''with_variance'' (PyBool False);
          varOutputFile = kw_get kwargs0 ''var_output_file'' (PyStr ''biasvar.fits'');
          kwargs1 = kw_setdefault kwargs0 ''method'' (PyStr ''clipped_mean'');
          kwargs = kw_setdefault kwargs1 ''clip_iters'' (PyInt 1);
          check_dropped_rows = kw_get kwargs ''check_dropped_rows'' (PyBool False)
      in
      io_bind (io_try (\<lambda>fs. path_join outputDir outputFile)) (\<lambda>path.
      io_bind (fits_create path) (\<lambda>u.
      io_bind (io_try (\<lambda>fs. write_stack_header_cards fs fileList ''BIAS'')) (\<lambda>hdr.
      io_bind (fits_write path (header_hdu hdr)) (\<lambda>u.
      io_bind (io_try (\<lambda>fs. truthy withVariance)) (\<lambda>wv.
      io_bind (if wv then
                 io_bind (io_try (\<lambda>fs. path_join outputDir varOutputFile)) (\<lambda>vp.
                 io_bind (fits_create vp) (\<lambda>u.
                 io_bind (fits_write vp (header_hdu hdr)) (\<lambda>u. io_return (Some vp))))
               else io_return None) (\<lambda>varpath.
      io_bind (io_try (\<lambda>fs. iterate extensions)) (\<lambda>exts.
      io_for (bias_extension float32 sigma_clip normfn check_rows blank fileList kwargs path
                varpath check_dropped_rows) exts))))))))"

text \<open>
  The steps of \<^verbatim>\<open>stack_image_cube\<close> that come before the combination: the
  statistics region, the scaling and the rejection.
\<close>

definition stack_prepare :: "clipper \<Rightarrow> normalizer \<Rightarrow> msample cube \<Rightarrow> kwargs \<Rightarrow> error + msample cube" where
  "stack_prepare sigma_clip normfn imCube kw =
     seq (stats_region (kw_get kw ''stats_region'' (PyStr ''amp_central_quadrant''))) (\<lambda>r.
     seq (unpack4 r) (\<lambda>reg.
     seq (scale_cube normfn (kw_get kw ''scale'' PyNone) reg imCube) (\<lambda>(imcube, scales).
     reject_cube sigma_clip (kw_get kw ''reject'' (PyStr ''sigma_clip''))
       (kw_get kw ''clip_iters'' (PyInt 2), kw_get kw ''clip_sig'' (PyFloat 2.5)) imcube)))"

subsection \<open>Two bias frames\<close>

text \<open>
  A file system with two bias frames; each holds a primary unit without data and the
  extension \<^verbatim>\<open>IM4\<close>, the first one that \<^verbatim>\<open>stack_bias_frames\<close> stacks.  The
  clipping of the example rejects nothing.
\<close>

definition primary_hdu :: hdu where
  "primary_hdu = \<lparr>hdu_extname = [], hdu_header = [''OBJECT'' \<mapsto> HStr ''bias''], hdu_data = None\<rparr>"

definition example_hdu :: "real image \<Rightarrow> hdu" where
  "example_hdu im = \<lparr>hdu_extname = ''IM4'', hdu_header = Map.empty, hdu_data = Some im\<rparr>"

definition example_fs :: filesys where
  "example_fs =
     [''raw/a.fits'' \<mapsto> [primary_hdu, example_hdu [[1, 2], [3, 4], [5, 6]]],
      ''raw/b.fits'' \<mapsto> [primary_hdu, example_hdu [[7, 8], [9, 10], [11, 12]]]]"

definition no_clip :: clipper where
  "no_clip clipargs imcube = Inr imcube"

definition no_norm :: normalizer where
  "no_norm s reg imcube = Inl TypeError"

definition no_check :: "msample cube \<Rightarrow> error + msample cube" where
  "no_check imcube = Inr imcube"

section \<open>Properties of the region resolver\<close>

text \<open>
  C10.  An argument that is already a tuple is returned unchanged, whatever its length
  and whatever its components: no tuple reaches the table of named regions or the
  branch that raises.
\<close>

theorem stats_region_tuple_passthrough:
  "stats_region (PyTuple t) = Inr (PyTuple t)"
  by (simp add: stats_region_def)

section \<open>Rejection of the extrema when stacking\<close>

lemma mask_frames_whole_frame:
  assumes "k \<in> set (concat idx)" and "r < length c" and "j < length (c ! r)"
    and "k < length (c ! r ! j)"
  shows "snd (mask_frames idx c ! r ! j ! k)"
  using assms by (simp add: mask_frames_def)

text \<open>
  C1.  The cube has one row, two columns and three frames; the samples of the first
  pixel are 1, 2, 3 and those of the second 3, 2, 1.  The maximum is in frame 2 at the
  first pixel and in frame 0 at the second, so the first assignment masks frames 2 and
  0 at both pixels; the minimum of what is left is in frame 1 at both pixels, so the
  second assignment masks frame 1.  No sample is left at either pixel and the stack is
  masked everywhere, where rejecting the maximum and the minimum of each pixel alone
  would leave the contributor 2 at both.
\<close>

theorem stack_minmax_three_frames_masks_all:
  "stack_image_cube float32 sigma_clip normfn
     [[[(1, False), (2, False), (3, False)], [(3, False), (2, False), (1, False)]]]
     [''reject'' \<mapsto> PyStr ''minmax'']
   = Inr ([[None, None]], [])"
  by (simp add: stack_image_cube_def kw_get_def stats_region_def seq_def scale_cube_def
      reject_cube_def reject_minmax_def cube_arg_def ma_argmax_def ma_argmin_def fill_key_def
      mask_frames_def combine_cube_def average_cube_def ma_mean_def unmasked_def
      stack_extras_def astype_def upt_rec)

section \<open>Overscan rows\<close>

lemma py_slice_all: "py_slice xs None None = xs"
  by (simp add: py_slice_def)

lemma py_slice_from: "0 \<le> i \<Longrightarrow> py_slice xs (Some i) None = drop (nat i) xs"
  by (simp add: py_slice_def slice_bound_def min_def Let_def)

lemma number_nonneg: "number s = Some (a, r) \<Longrightarrow> 0 \<le> a"
  by (auto simp add: number_def Let_def split: if_splits)

lemma match_fitsreg_nonneg:
  "match_fitsreg s = Some (a, b, c, d) \<Longrightarrow> 0 \<le> a \<and> 0 \<le> b \<and> 0 \<le> c \<and> 0 \<le> d"
  by (auto simp add: match_fitsreg_def Option.bind_eq_Some_conv dest: number_nonneg)

lemma convertfitsreg_upper_nonneg:
  "convertfitsreg v = Inr (x1, x2, y1, y2) \<Longrightarrow> 0 \<le> x2 \<and> 0 \<le> y2"
  by (auto simp add: convertfitsreg_def split: hval.splits option.splits dest: match_fitsreg_nonneg)

lemma extract_overscan_rows:
  assumes "extract_overscan h = Inr (d, oc, orows)"
    and "hdu_header h ''DATASEC'' = Some ds"
    and "convertfitsreg ds = Inr (x1, x2, y1, y2)"
    and "hdu_header h ''NAXIS2'' = Some (HInt n)"
    and "hdu_data h = Some im"
  shows "orows = (if n > y2 + 1 then Some (drop (nat y2) im) else None)"
proof -
  have "0 \<le> y2" using assms(3) by (auto dest: convertfitsreg_upper_nonneg)
  then have sl: "slice2 im (Some y2) None None None = drop (nat y2) im"
    by (simp add: slice2_def py_slice_all py_slice_from)
  show ?thesis
    using assms sl
    by (auto simp add: extract_overscan_def seq_def hdr_get_def Let_def
        split: option.splits sum.splits if_splits prod.splits)
qed

text \<open>
  C8.  The array has three rows and the data section \<^verbatim>\<open>[1:2,1:2]\<close> ends at its
  second row, so one row (7, 7, 7) lies beyond the data section and \<^verbatim>\<open>NAXIS2 = 3\<close>
  exceeds the upper row bound 2.  The test of the source is
  \<^verbatim>\<open>NAXIS2 > y2+1\<close>, that is \<open>3 > 3\<close>, and no row strip is returned.
\<close>

theorem extract_overscan_single_extra_row:
  "extract_overscan
     \<lparr>hdu_extname = ''IM4'',
      hdu_header = [''BIASSEC'' \<mapsto> HStr ''[3:3,1:2]'', ''DATASEC'' \<mapsto> HStr ''[1:2,1:2]'',
                    ''NAXIS1'' \<mapsto> HInt 3, ''NAXIS2'' \<mapsto> HInt 3],
      hdu_data = Some [[1, 2, 9], [3, 4, 9], [7, 7, 7]]\<rparr>
   = Inr ([[1, 2], [3, 4]], [[9], [9]], None)"
  by code_simp

section \<open>Orientation of the mosaic\<close>

lemma map_by_index: "map f xs = map (\<lambda>i. f (xs ! i)) [0 ..< length xs]"
  by (rule nth_equalityI) simp_all

lemma rev_by_index: "rev xs = map (\<lambda>i. xs ! (length xs - 1 - i)) [0 ..< length xs]"
  by (rule nth_equalityI) (simp_all add: rev_nth)

lemma rect_ncols: "rect h w m \<Longrightarrow> 0 < h \<Longrightarrow> ncols m = w"
  by (cases m) (auto simp add: rect_def ncols_def)

lemma rect_row: "rect h w m \<Longrightarrow> i < h \<Longrightarrow> length (m ! i) = w"
  by (auto simp add: rect_def list_all_length)

lemma rect_length: "rect h w m \<Longrightarrow> length m = h"
  by (simp add: rect_def)

lemma rectI: "length m = h \<Longrightarrow> (\<And>i. i < h \<Longrightarrow> length (m ! i) = w) \<Longrightarrow> rect h w m"
  by (auto simp add: rect_def list_all_length)

lemma flipud_spec: "flipud m = spec_flip_vertical m"
  by (simp add: flipud_def spec_flip_vertical_def rev_by_index)

lemma fliplr_spec:
  assumes "rect h w m" "0 < h"
  shows "fliplr m = spec_flip_horizontal m"
  using assms
  by (auto intro!: nth_equalityI simp add: fliplr_def spec_flip_horizontal_def list_eq_iff_nth_eq rect_ncols
      rect_length rect_row rev_nth)

lemma rect_fliplr: "rect h w m \<Longrightarrow> rect h w (fliplr m)"
  by (auto simp add: rect_def fliplr_def list_all_length)

lemma rect_flipud: "rect h w m \<Longrightarrow> rect h w (flipud m)"
  by (auto simp add: rect_def flipud_def list_all_iff)

lemma rect_transpose: "rect h w m \<Longrightarrow> 0 < h \<Longrightarrow> rect w h (np_transpose m)"
  by (auto simp add: np_transpose_def rect_ncols intro!: rectI simp add: rect_length)

lemma rot90_1_spec:
  assumes "rect h w m" "0 < h"
  shows "rot90 1 m = spec_rotate90 m"
  using assms
  by (auto intro!: nth_equalityI simp add: rot90_def np_transpose_def spec_rotate90_def fliplr_def
      rect_ncols rect_length rect_row rev_nth
      rect_ncols[OF rect_fliplr, unfolded fliplr_def])

lemma rot90_3_spec:
  assumes "rect h w m" "0 < h"
  shows "rot90 3 m = spec_rotate270 m"
  using assms
  by (auto intro!: nth_equalityI simp add: rot90_def np_transpose_def spec_rotate270_def fliplr_def
      rect_ncols rect_length rect_row rev_nth)

lemma rot90_2_spec:
  assumes "rect h w m" "0 < h"
  shows "rot90 2 m = spec_rotate180 m"
  using assms
  by (auto intro!: nth_equalityI simp add: rot90_def flipud_def spec_rotate180_def fliplr_def
      rect_ncols rect_length rect_row rev_nth)

lemma rect_rot90_1: "rect h w m \<Longrightarrow> 0 < h \<Longrightarrow> rect w h (rot90 1 m)"
  by (simp add: rot90_def rect_transpose rect_fliplr)

lemma rect_rot90_3: "rect h w m \<Longrightarrow> 0 < h \<Longrightarrow> 0 < w \<Longrightarrow> rect w h (rot90 3 m)"
  by (simp add: rot90_def rect_transpose rect_fliplr)


lemma rect_hstack:
  assumes "rect h w a" "rect h v b"
  shows "rect h (w + v) (map2 (@) a b)"
  using assms by (auto intro!: rectI simp add: rect_length rect_row)

lemma rect_append: "rect h w a \<Longrightarrow> rect k w b \<Longrightarrow> rect (h + k) w (a @ b)"
  by (auto simp add: rect_def)

lemma orient_image_spec:
  assumes r: "rect h w im1" "rect h w im2" "rect h w im3" "rect h w im4"
    and pos: "0 < h" "0 < w"
  shows "orient_image (im1, im2, im3, im4) = Inr (spec_mosaic (im1, im2, im3, im4))"
    and "rect (w + w) (h + h) (spec_mosaic (im1, im2, im3, im4))"
proof -
  let ?tl = "flipud (rot90 1 im2)" and ?tr = "rot90 3 im4"
  let ?bl = "rot90 1 im1" and ?br = "fliplr (rot90 1 im3)"
  have rtl: "rect w h ?tl" by (intro rect_flipud rect_rot90_1 r pos)
  have rtr: "rect w h ?tr" by (intro rect_rot90_3 r pos)
  have rbl: "rect w h ?bl" by (intro rect_rot90_1 r pos)
  have rbr: "rect w h ?br" by (intro rect_fliplr rect_rot90_1 r pos)
  have rtop: "rect w (h + h) (map2 (@) ?tl ?tr)" using rtl rtr by (rule rect_hstack)
  have rbot: "rect w (h + h) (map2 (@) ?bl ?br)" using rbl rbr by (rule rect_hstack)
  have eqs: "?tl = spec_flip_vertical (spec_rotate90 im2)" "?tr = spec_rotate270 im4"
    "?bl = spec_rotate90 im1" "?br = spec_flip_horizontal (spec_rotate90 im3)"
    using rot90_1_spec[OF r(2) pos(1)] rot90_3_spec[OF r(4) pos(1)]
      rot90_1_spec[OF r(1) pos(1)] rot90_1_spec[OF r(3) pos(1)]
      fliplr_spec[OF rect_rot90_1[OF r(3) pos(1)] pos(2)]
    by (simp_all add: flipud_spec)
  have "orient_image (im1, im2, im3, im4) = Inr (map2 (@) ?tl ?tr @ map2 (@) ?bl ?br)"
    using rtl rtr rbl rbr rect_ncols[OF rtop pos(2)] rect_ncols[OF rbot pos(2)]
    by (simp add: orient_image_def hstack2_def vstack2_def seq_def rect_length)
  then show "orient_image (im1, im2, im3, im4) = Inr (spec_mosaic (im1, im2, im3, im4))"
    by (simp only: spec_mosaic_def spec_tile_def eqs prod.case)
  show "rect (w + w) (h + h) (spec_mosaic (im1, im2, im3, im4))"
    using rect_append[OF rtop rbot] by (simp only: spec_mosaic_def spec_tile_def eqs prod.case)
qed

lemma orient_whole_spec:
  assumes "rect H W m" "0 < H" "1 \<le> ccdNum" "ccdNum \<le> 4"
  shows "orient_whole ccdNum (PyStr ''lower left'') m = m"
    and "orient_whole ccdNum (PyStr ''center'') m = spec_center ccdNum m"
  using assms fliplr_spec[OF assms(1,2)] rot90_2_spec[OF assms(1,2)]
  by (auto simp add: orient_whole_def spec_center_def flipud_spec)

lemma seq_Inr [simp]: "seq (Inr x) f = f x"
  by (simp add: seq_def)

lemma seq_Inl [simp]: "seq (Inl e) f = Inl e"
  by (simp add: seq_def)

lemma ccd_cases: "1 \<le> (n::int) \<Longrightarrow> n \<le> 4 \<Longrightarrow> n = 1 \<or> n = 2 \<or> n = 3 \<or> n = 4"
  by arith

lemma orient_wcs_center:
  assumes "hdr ''CD1_1'' = Some (HFloat a)" "hdr ''CD1_2'' = Some (HFloat b)"
    and "n = 1 \<or> n = 2 \<or> n = 3 \<or> n = 4"
  shows "\<exists>hdr'. orient_wcs hdr n (PyStr ''center'') nx ny = Inr hdr'"
  using assms(3)
  apply (elim disjE)
  apply (simp_all add: orient_wcs_def Let_def hdr_get_def pick2_def assms(1,2))
  done

lemma orient_wcs_lower_left:
  assumes "hdr ''CD1_1'' = Some (HFloat a)" "hdr ''CD1_2'' = Some (HFloat b)"
    and "hdr ''CRPIX1'' = Some (HFloat c)" "hdr ''CRPIX2'' = Some (HFloat d)"
    and "n = 1 \<or> n = 2 \<or> n = 3 \<or> n = 4"
  shows "\<exists>hdr'. orient_wcs hdr n (PyStr ''lower left'') nx ny = Inr hdr'"
  using assms(5)
  apply (elim disjE)
  apply (simp_all add: orient_wcs_def Let_def hdr_get_def assms(1-4))
  done

text \<open>
  C4.  For four amplifier images of one shape (\<open>h\<close> rows, \<open>w\<close> columns) and a header
  that carries the keywords \<^verbatim>\<open>_orient_mosaic\<close> reads, the function returns, and the
  image it returns is the two-by-two tiling of the specification: image 2 rotated by 90
  degrees and then flipped vertically and image 4 rotated by 270 degrees in the top row,
  image 1 rotated by 90 degrees and image 3 rotated by 90 degrees and then flipped
  horizontally in the bottom row.  With the origin \<^verbatim>\<open>lower left\<close> that is the result;
  with the origin \<^verbatim>\<open>center\<close> the whole mosaic is flipped horizontally for CCD 1,
  rotated by 180 degrees for CCD 2, left as it is for CCD 3 and flipped vertically for
  CCD 4.
\<close>

theorem orient_mosaic_layout:
  assumes "rect h w im1" "rect h w im2" "rect h w im3" "rect h w im4"
    and "0 < h" "0 < w"
    and "hdr ''CD1_1'' = Some (HFloat a)" "hdr ''CD1_2'' = Some (HFloat b)"
    and "hdr ''CRPIX1'' = Some (HFloat c)" "hdr ''CRPIX2'' = Some (HFloat d)"
    and "1 \<le> ccdNum" "ccdNum \<le> 4"
  shows "(\<exists>hdr'. orient_mosaic hdr (im1, im2, im3, im4) ccdNum (PyStr ''lower left'')
                  = Inr (spec_mosaic (im1, im2, im3, im4), hdr'))
       \<and> (\<exists>hdr'. orient_mosaic hdr (im1, im2, im3, im4) ccdNum (PyStr ''center'')
                  = Inr (spec_center ccdNum (spec_mosaic (im1, im2, im3, im4)), hdr'))"
proof -
  let ?ims = "(im1, im2, im3, im4)"
  let ?m = "spec_mosaic ?ims"
  have im: "orient_image ?ims = Inr ?m" and rm: "rect (w + w) (h + h) ?m"
    using assms(1-6) by (rule orient_image_spec)+
  have pos: "0 < w + w" using assms(6) by simp
  have wl: "orient_whole ccdNum (PyStr ''lower left'') ?m = ?m"
    and wc: "orient_whole ccdNum (PyStr ''center'') ?m = spec_center ccdNum ?m"
    using orient_whole_spec[OF rm pos assms(11,12)] by simp_all
  note cc = ccd_cases[OF assms(11,12)]
  obtain h1 where h1: "orient_wcs hdr ccdNum (PyStr ''lower left'')
      (int (ncols ?m)) (int (length ?m)) = Inr h1"
    using orient_wcs_lower_left[OF assms(7-10) cc] by blast
  obtain h2 where h2: "orient_wcs hdr ccdNum (PyStr ''center'')
      (int (ncols (spec_center ccdNum ?m))) (int (length (spec_center ccdNum ?m))) = Inr h2"
    using orient_wcs_center[OF assms(7,8) cc] by blast
  have "orient_mosaic hdr ?ims ccdNum (PyStr ''lower left'') = Inr (?m, h1)"
    by (simp add: orient_mosaic_def im wl Let_def h1)
  moreover have "orient_mosaic hdr ?ims ccdNum (PyStr ''center'')
      = Inr (spec_center ccdNum ?m, h2)"
    by (simp add: orient_mosaic_def im wc Let_def h2)
  ultimately show ?thesis by blast
qed

theorem orient_mosaic_layout_witness:
  "rect 1 2 [[1, 2 :: real]] \<and> rect 1 2 [[3, 4 :: real]] \<and> rect 1 2 [[5, 6 :: real]]
   \<and> rect 1 2 [[7, 8 :: real]]
   \<and> spec_mosaic ([[1, 2 :: real]], [[3, 4]], [[5, 6]], [[7, 8]]) = [[3, 7], [4, 8], [2, 6], [1, 5]]
   \<and> (\<exists>hdr'. orient_mosaic
          [''CD1_1'' \<mapsto> HFloat 0, ''CD1_2'' \<mapsto> HFloat 0.000126,
           ''CRPIX1'' \<mapsto> HFloat 100, ''CRPIX2'' \<mapsto> HFloat 200]
          ([[1, 2]], [[3, 4]], [[5, 6]], [[7, 8]]) 2 (PyStr ''lower left'')
        = Inr ([[3, 7], [4, 8], [2, 6], [1, 5]], hdr'))
   \<and> (\<exists>hdr'. orient_mosaic
          [''CD1_1'' \<mapsto> HFloat 0, ''CD1_2'' \<mapsto> HFloat 0.000126,
           ''CRPIX1'' \<mapsto> HFloat 100, ''CRPIX2'' \<mapsto> HFloat 200]
          ([[1, 2]], [[3, 4]], [[5, 6]], [[7, 8]]) 2 (PyStr ''center'')
        = Inr ([[5, 1], [6, 2], [8, 4], [7, 3]], hdr'))"
proof -
  let ?hdr = "[''CD1_1'' \<mapsto> HFloat 0, ''CD1_2'' \<mapsto> HFloat 0.000126,
               ''CRPIX1'' \<mapsto> HFloat 100, ''CRPIX2'' \<mapsto> HFloat 200]"
  have m: "spec_mosaic ([[1, 2 :: real]], [[3, 4]], [[5, 6]], [[7, 8]]) = [[3, 7], [4, 8], [2, 6], [1, 5]]"
    by code_simp
  have c: "spec_center 2 [[3, 7], [4, 8], [2, 6], [1, 5 :: real]] = [[5, 1], [6, 2], [8, 4], [7, 3]]"
    by code_simp
  have r: "rect 1 2 [[1, 2 :: real]]" "rect 1 2 [[3, 4 :: real]]" "rect 1 2 [[5, 6 :: real]]"
    "rect 1 2 [[7, 8 :: real]]"
    by (simp_all add: rect_def)
  have k: "?hdr ''CD1_1'' = Some (HFloat 0)" "?hdr ''CD1_2'' = Some (HFloat 0.000126)"
    "?hdr ''CRPIX1'' = Some (HFloat 100)" "?hdr ''CRPIX2'' = Some (HFloat 200)"
    by simp_all
  have p: "(0 :: nat) < 1" "(0 :: nat) < 2" "(1 :: int) \<le> 2" "(2 :: int) \<le> 4"
    by simp_all
  note t = orient_mosaic_layout[OF r p(1,2) k p(3,4)]
  show ?thesis
    using t r unfolding m c by blast
qed

section \<open>Gain factors\<close>

lemma card_key_letter:
  "last (butlast (card_key p n i d)) = ''ABCD'' ! i"
  by (simp add: card_key_def butlast_append)

lemma card_key_digit: "last (card_key p n i d) = d"
  by (simp add: card_key_def)

lemma letters_distinct: "i < 4 \<Longrightarrow> j < 4 \<Longrightarrow> i \<noteq> j \<Longrightarrow> ''ABCD'' ! i \<noteq> ''ABCD'' ! j"
proof -
  assume a: "i < 4" "j < 4" "i \<noteq> j"
  have "distinct ''ABCD''" by simp
  then show ?thesis using a by (simp add: nth_eq_iff_index_eq)
qed

lemma card_key_neq:
  "i < 4 \<Longrightarrow> j < 4 \<Longrightarrow> i \<noteq> j \<Longrightarrow> card_key p n i d \<noteq> card_key q m j e"
  using card_key_letter letters_distinct by metis

lemma amp_key_Inr:
  "py_int (remove_IM ext) = Inr n \<Longrightarrow> i < 4 \<Longrightarrow> amp_key p ext i d = Inr (card_key p n i d)"
  by (simp add: amp_key_def)

lemma gain_cards_loop:
  assumes "seq_list (\<lambda>e. py_int (remove_IM e)) es = Inr nums" "i0 + length es \<le> 4"
  shows "\<exists>hdr'. for_enumerate (gain_cards gain) i0 es hdr = Inr hdr'
    \<and> (\<forall>j<length es. hdr' (card_key ''GAIN'' (nums ! j) (i0 + j) (CHR ''1''))
           = Some (HFloat (gain ! (i0 + j))))
    \<and> (\<forall>k. (\<forall>j<length es. k \<noteq> card_key ''GAIN'' (nums ! j) (i0 + j) (CHR ''1''))
           \<longrightarrow> hdr' k = hdr k)"
  using assms
proof (induction es arbitrary: i0 hdr nums)
  case Nil
  then show ?case by simp
next
  case (Cons e es)
  from Cons.prems(1) obtain n ns where n: "py_int (remove_IM e) = Inr n"
    and ns: "seq_list (\<lambda>e. py_int (remove_IM e)) es = Inr ns" and nums: "nums = n # ns"
    by (auto split: sum.splits)
  have i0: "i0 < 4" and le: "Suc i0 + length es \<le> 4" using Cons.prems(2) by auto
  let ?h = "hdr(card_key ''GAIN'' n i0 (CHR ''1'') \<mapsto> HFloat (gain ! i0))"
  from Cons.IH[OF ns le, of ?h] obtain hdr' where
    r: "for_enumerate (gain_cards gain) (Suc i0) es ?h = Inr hdr'"
    and v: "\<And>j. j < length es \<Longrightarrow> hdr' (card_key ''GAIN'' (ns ! j) (Suc i0 + j) (CHR ''1''))
           = Some (HFloat (gain ! (Suc i0 + j)))"
    and o: "\<And>k. (\<forall>j<length es. k \<noteq> card_key ''GAIN'' (ns ! j) (Suc i0 + j) (CHR ''1''))
           \<Longrightarrow> hdr' k = ?h k"
    by blast
  have run: "for_enumerate (gain_cards gain) i0 (e # es) hdr = Inr hdr'"
    using r by (simp add: gain_cards_def amp_key_Inr[OF n i0])
  have first: "hdr' (card_key ''GAIN'' n i0 (CHR ''1'')) = Some (HFloat (gain ! i0))"
  proof -
    have "\<forall>j<length es. card_key ''GAIN'' n i0 (CHR ''1'')
            \<noteq> card_key ''GAIN'' (ns ! j) (Suc i0 + j) (CHR ''1'')"
    proof (intro allI impI)
      fix j assume "j < length es"
      then show "card_key ''GAIN'' n i0 (CHR ''1'')
            \<noteq> card_key ''GAIN'' (ns ! j) (Suc i0 + j) (CHR ''1'')"
        using le by (intro card_key_neq) auto
    qed
    from o[OF this] show ?thesis by simp
  qed
  show ?case
  proof (intro exI conjI allI impI)
    show "for_enumerate (gain_cards gain) i0 (e # es) hdr = Inr hdr'" by (rule run)
  next
    fix j assume "j < length (e # es)"
    then show "hdr' (card_key ''GAIN'' (nums ! j) (i0 + j) (CHR ''1''))
           = Some (HFloat (gain ! (i0 + j)))"
      using first v[of "j - 1"] nums by (cases j) auto
  next
    fix k assume a: "\<forall>j<length (e # es). k \<noteq> card_key ''GAIN'' (nums ! j) (i0 + j) (CHR ''1'')"
    have k0: "k \<noteq> card_key ''GAIN'' n i0 (CHR ''1'')" using a nums by force
    have "\<forall>j<length es. k \<noteq> card_key ''GAIN'' (ns ! j) (Suc i0 + j) (CHR ''1'')"
      using a nums by force
    from o[OF this] show "hdr' k = hdr k" using k0 by simp
  qed
qed


lemma sky_cards_loop:
  assumes "seq_list (\<lambda>e. py_int (remove_IM e)) es = Inr nums" "i0 + length es \<le> 4"
  shows "\<exists>hdr'. for_enumerate (sky_cards rawSky gain gain2) i0 es hdr = Inr hdr'
    \<and> (\<forall>j<length es. hdr' (card_key ''GAIN'' (nums ! j) (i0 + j) (CHR ''2''))
           = Some (HFloat (gain2 ! (i0 + j))))
    \<and> (\<forall>k. (\<forall>j<length es. last (butlast k) \<noteq> ''ABCD'' ! (i0 + j)) \<longrightarrow> hdr' k = hdr k)"
  using assms
proof (induction es arbitrary: i0 hdr nums)
  case Nil
  then show ?case by simp
next
  case (Cons e es)
  from Cons.prems(1) obtain n ns where n: "py_int (remove_IM e) = Inr n"
    and ns: "seq_list (\<lambda>e. py_int (remove_IM e)) es = Inr ns" and nums: "nums = n # ns"
    by (auto split: sum.splits)
  have i0: "i0 < 4" and le: "Suc i0 + length es \<le> 4" using Cons.prems(2) by auto
  let ?k2 = "card_key ''GAIN'' n i0 (CHR ''2'')"
  let ?h = "hdr(card_key ''SKYC'' n i0 (CHR ''1'') \<mapsto> HFloat (rawSky ! i0),
                card_key ''GAIN'' n i0 (CHR ''1'') \<mapsto> HFloat (gain ! i0),
                ?k2 \<mapsto> HFloat (gain2 ! i0))"
  from Cons.IH[OF ns le, of ?h] obtain hdr' where
    r: "for_enumerate (sky_cards rawSky gain gain2) (Suc i0) es ?h = Inr hdr'"
    and v: "\<And>j. j < length es \<Longrightarrow> hdr' (card_key ''GAIN'' (ns ! j) (Suc i0 + j) (CHR ''2''))
           = Some (HFloat (gain2 ! (Suc i0 + j)))"
    and o: "\<And>k. (\<forall>j<length es. last (butlast k) \<noteq> ''ABCD'' ! (Suc i0 + j))
           \<Longrightarrow> hdr' k = ?h k"
    by blast
  have run: "for_enumerate (sky_cards rawSky gain gain2) i0 (e # es) hdr = Inr hdr'"
    using r by (simp add: sky_cards_def amp_key_Inr[OF n i0])
  have first: "hdr' ?k2 = Some (HFloat (gain2 ! i0))"
  proof -
    have "\<forall>j<length es. last (butlast ?k2) \<noteq> ''ABCD'' ! (Suc i0 + j)"
    proof (intro allI impI)
      fix j assume "j < length es"
      then show "last (butlast ?k2) \<noteq> ''ABCD'' ! (Suc i0 + j)"
        using le unfolding card_key_letter by (intro letters_distinct) auto
    qed
    from o[OF this] show ?thesis by simp
  qed
  show ?case
  proof (intro exI conjI allI impI)
    show "for_enumerate (sky_cards rawSky gain gain2) i0 (e # es) hdr = Inr hdr'" by (rule run)
  next
    fix j assume "j < length (e # es)"
    then show "hdr' (card_key ''GAIN'' (nums ! j) (i0 + j) (CHR ''2''))
           = Some (HFloat (gain2 ! (i0 + j)))"
      using first v[of "j - 1"] nums by (cases j) auto
  next
    fix k assume a: "\<forall>j<length (e # es). last (butlast k) \<noteq> ''ABCD'' ! (i0 + j)"
    have k0: "last (butlast k) \<noteq> ''ABCD'' ! i0" using a by force
    then have k1: "k \<noteq> card_key p n i0 d" for p d using card_key_letter by metis
    have "\<forall>j<length es. last (butlast k) \<noteq> ''ABCD'' ! (Suc i0 + j)"
      using a by force
    from o[OF this] show "hdr' k = hdr k" using k1 by simp
  qed
qed

lemma seq_list_length: "seq_list f xs = Inr ys \<Longrightarrow> length ys = length xs"
  by (induction xs arbitrary: ys) (auto split: sum.splits)

lemma seq_list_nth:
  "seq_list f xs = Inr ys \<Longrightarrow> i < length xs \<Longrightarrow> f (xs ! i) = Inr (ys ! i)"
  by (induction xs arbitrary: ys i) (auto split: sum.splits simp add: nth_Cons')

lemma times_gain_all:
  "length gain = length ims \<Longrightarrow>
   seq_list (\<lambda>(im, g). times_gain im g) (zip (map Some ims) gain)
     = Inr (map2 (\<lambda>im g. map (map (\<lambda>v. v * g)) im) ims gain)"
  by (induction ims gain rule: list_induct2') (simp_all add: times_gain_def)

lemma where_first_mem:
  "name \<in> set xs \<Longrightarrow> \<exists>i. where_first xs name = Inr i \<and> i < length xs \<and> xs ! i = name"
  by (induction xs) auto

lemma where_first_bound:
  "where_first xs name = Inr i \<Longrightarrow> i < length xs"
  by (induction xs arbitrary: i) (auto simp add: seq_def split: if_splits sum.splits)

lemma fdiv_same:
  assumes "list_all (\<lambda>x. x = c) xs" "c \<noteq> 0"
  shows "seq_list (fdiv c) xs = Inr (map (\<lambda>x. 1) xs)"
  using assms by (induction xs) (simp_all add: fdiv_def)


lemma seq_list_map: "seq_list f (map g xs) = seq_list (\<lambda>x. f (g x)) xs"
  by (induction xs) (simp_all split: sum.splits)

lemma multiply_gain_nominal:
  assumes regs: "unpack4 ampCorStatReg = Inr (xa1, xa2, ya1, ya2)"
      "unpack4 ccdCorStatReg = Inr (xc1, xc2, yc1, yc2)"
    and rd: "seq_list (ext_read inFits) extGroup = Inr (map Some ims)"
    and gn: "seq_list (input_gain inputGain) extGroup = Inr gain"
    and nums: "seq_list (\<lambda>e. py_int (remove_IM e)) extGroup = Inr nums"
    and len: "length extGroup \<le> 4"
  shows "\<exists>hdr'. multiply_gain sky inFits extGroup hdr False inputGain ampCorStatReg
              ccdCorStatReg clipArgs skyIn refAmp
            = Inr (map2 (\<lambda>im g. map (map (\<lambda>v. v * g)) im) ims gain, None, hdr')
          \<and> (\<forall>j<length extGroup. hdr' (card_key ''GAIN'' (nums ! j) j (CHR ''1''))
                 = Some (HFloat (gain ! j)))
          \<and> (\<forall>k. (\<forall>j<length extGroup. k \<noteq> card_key ''GAIN'' (nums ! j) j (CHR ''1''))
                 \<longrightarrow> hdr' k = hdr k)"
proof -
  have l: "length gain = length ims"
    using seq_list_length[OF rd] seq_list_length[OF gn] by simp
  from gain_cards_loop[OF nums, of 0 gain hdr] len obtain hdr' where
    r: "for_enumerate (gain_cards gain) 0 extGroup hdr = Inr hdr'"
    and v: "\<forall>j<length extGroup. hdr' (card_key ''GAIN'' (nums ! j) j (CHR ''1''))
                 = Some (HFloat (gain ! j))"
    and o: "\<forall>k. (\<forall>j<length extGroup. k \<noteq> card_key ''GAIN'' (nums ! j) j (CHR ''1''))
                 \<longrightarrow> hdr' k = hdr k"
    by auto
  have "multiply_gain sky inFits extGroup hdr False inputGain ampCorStatReg
              ccdCorStatReg clipArgs skyIn refAmp
            = Inr (map2 (\<lambda>im g. map (map (\<lambda>v. v * g)) im) ims gain, None, hdr')"
    by (simp add: multiply_gain_def regs rd gn r times_gain_all[OF l])
  then show ?thesis using v o by blast
qed

lemma multiply_gain_balanced:
  assumes regs: "unpack4 ampCorStatReg = Inr (xa1, xa2, ya1, ya2)"
      "unpack4 ccdCorStatReg = Inr (xc1, xc2, yc1, yc2)"
    and rd: "seq_list (ext_read inFits) extGroup = Inr (map Some ims)"
    and gn: "seq_list (input_gain inputGain) extGroup = Inr gain"
    and nums: "seq_list (\<lambda>e. py_int (remove_IM e)) extGroup = Inr nums"
    and len: "length extGroup \<le> 4"
    and sk: "seq_list (\<lambda>im. seq (stat_slice (Some im) ya1 ya2 xa1 xa2) (sky clipArgs)) ims
               = Inr rawSky"
    and same: "list_all (\<lambda>(r, g). r * g = c) (zip rawSky gain)" and c: "c \<noteq> 0"
    and ref: "refAmp \<in> set extGroup"
    and cen: "center_amp extGroup = Inr ca" "where_first extGroup ca = Inr ci"
    and csk: "seq (stat_slice (Some (ims ! ci)) yc1 yc2 xc1 xc2) (sky clipArgs) = Inr s"
    and sin: "case skyIn of None \<Rightarrow> True | Some v \<Rightarrow> s * gain ! ci \<noteq> 0"
    and g3: "gain3 = (case skyIn of None \<Rightarrow> 1 | Some v \<Rightarrow> v / (s * gain ! ci))"
  shows "\<exists>hdr'. multiply_gain sky inFits extGroup hdr True inputGain ampCorStatReg
              ccdCorStatReg clipArgs skyIn refAmp
            = Inr (map2 (\<lambda>im g. map (map (\<lambda>v. v * (g * gain3))) im) ims gain,
                   Some (s * gain ! ci), hdr')
          \<and> (\<forall>j<length extGroup. hdr' (card_key ''GAIN'' (nums ! j) j (CHR ''2''))
                 = Some (HFloat 1))
          \<and> hdr' ''CCDGAIN3'' = Some (HFloat gain3)"
proof -
  let ?n = "length extGroup"
  have li: "length ims = ?n" using seq_list_length[OF rd] by simp
  have lg: "length gain = ?n" using seq_list_length[OF gn] by simp
  have lr: "length rawSky = ?n" using seq_list_length[OF sk] li by simp
  let ?sc = "map2 (*) rawSky gain"
  have lsc: "length ?sc = ?n" using lr lg by simp
  have all: "list_all (\<lambda>x. x = c) ?sc"
    using same by (simp add: list_all_iff split_def)
  from where_first_mem[OF ref] obtain ri where
    ri: "where_first extGroup refAmp = Inr ri" "ri < ?n" by blast
  have scri: "?sc ! ri = c"
    using all ri(2) lsc by (simp add: list_all_length del: length_map length_zip)
  have g2: "seq_list (fdiv (?sc ! ri)) ?sc = Inr (map (\<lambda>x. 1) ?sc)"
    unfolding scri by (rule fdiv_same[OF all c])
  have ci: "ci < ?n" using where_first_bound[OF cen(2)] .
  have one: "map (\<lambda>x. 1::real) ?sc ! j = 1" if "j < ?n" for j
  proof -
    have "j < length ?sc" using that lsc by (simp only:)
    from nth_map[OF this, of "\<lambda>x. 1::real"] show ?thesis .
  qed
  have g2ci: "map (\<lambda>x. 1::real) ?sc ! ci = 1" using one[OF ci] .
  have g3r: "(case skyIn of None \<Rightarrow> Inr 1 | Some v \<Rightarrow> fdiv v (s * gain ! ci)) = Inr gain3"
    using sin g3 by (simp add: fdiv_def split: option.splits)
  let ?g2 = "map (\<lambda>x. 1::real) ?sc"
  from sky_cards_loop[OF nums, of 0 rawSky gain ?g2 hdr] len obtain hdr1 where
    r: "for_enumerate (sky_cards rawSky gain ?g2) 0 extGroup hdr = Inr hdr1"
    and v: "\<forall>j<?n. hdr1 (card_key ''GAIN'' (nums ! j) j (CHR ''2'')) = Some (HFloat (?g2 ! j))"
    by auto
  have gp: "map2 (\<lambda>g g2. g * (g2 * gain3)) gain ?g2 = map (\<lambda>g. g * gain3) gain"
    using lg lr by (intro nth_equalityI) simp_all
  have lgp: "length (map (\<lambda>g. g * gain3) gain) = length ims" using lg li by simp
  have ims: "map2 (\<lambda>im g. map (map (\<lambda>v. v * g)) im) ims (map (\<lambda>g. g * gain3) gain)
      = map2 (\<lambda>im g. map (map (\<lambda>v. v * (g * gain3))) im) ims gain"
    using lg li by (intro nth_equalityI) simp_all
  let ?hdr' = "hdr1(''CCDGAIN3'' \<mapsto> HFloat gain3)"
  have cims: "map Some ims ! ci = Some (ims ! ci)" using ci li by simp
  have run: "multiply_gain sky inFits extGroup hdr True inputGain ampCorStatReg
              ccdCorStatReg clipArgs skyIn refAmp
            = Inr (map2 (\<lambda>im g. map (map (\<lambda>v. v * (g * gain3))) im) ims gain,
                   Some (s * gain ! ci), ?hdr')"
    unfolding multiply_gain_def
    by (simp only: regs rd gn seq_Inr prod.case if_True seq_list_map[where g = Some] sk Let_def ri(1) g2 cen
        cims csk g2ci mult_1_right g3r r gp
        times_gain_all[OF lgp] ims)
  have keys: "\<forall>j<?n. ?hdr' (card_key ''GAIN'' (nums ! j) j (CHR ''2'')) = Some (HFloat 1)"
  proof (intro allI impI)
    fix j assume j: "j < ?n"
    have "card_key ''GAIN'' (nums ! j) j (CHR ''2'') \<noteq> ''CCDGAIN3''"
      using card_key_digit[of "''GAIN''" "nums ! j" j "CHR ''2''"] by auto
    moreover have "?g2 ! j = 1" using one[OF j] .
    ultimately show "?hdr' (card_key ''GAIN'' (nums ! j) j (CHR ''2'')) = Some (HFloat 1)"
      using v j by simp
  qed
  show ?thesis using run keys by (intro exI[of _ ?hdr']) simp
qed





end
